theory Spec2Isabelle
  imports Complex_Main "HOL-Library.AList"
begin

section \<open>Python values and string helpers\<close>

text \<open>
  The values that travel through the handlers of \<^verbatim>\<open>app_improved.py\<close>: what a JSON
  payload holds (null, booleans, integers, strings) and the \<^verbatim>\<open>date\<close> objects that
  pydantic builds from them. JSON numbers are integers here (no floats), nested arrays and
  objects are left out, and characters are ASCII. A Python \<^verbatim>\<open>dict\<close> with string keys
  is an association list read with \<open>map_of\<close>.
\<close>

datatype pyval = PNone | PBool bool | PInt int | PStr string | PDate nat nat nat

type_synonym pydict = "(string \<times> pyval) list"

text \<open>\<^verbatim>\<open>s.split(sep)\<close> for a one-character separator: never the empty list.\<close>

fun py_split :: "char \<Rightarrow> string \<Rightarrow> string list" where
  "py_split sep [] = [[]]"
| "py_split sep (c # cs) =
     (if c = sep then [] # py_split sep cs
      else (case py_split sep cs of [] \<Rightarrow> [[c]] | w # ws \<Rightarrow> (c # w) # ws))"

text \<open>\<^verbatim>\<open>sep.join(xs)\<close>.\<close>

fun py_join :: "string \<Rightarrow> string list \<Rightarrow> string" where
  "py_join sep [] = []"
| "py_join sep [x] = x"
| "py_join sep (x # y # ys) = x @ sep @ py_join sep (y # ys)"

definition startswith :: "string \<Rightarrow> string \<Rightarrow> bool" where
  "startswith s p = (take (length p) s = p)"

text \<open>\<^verbatim>\<open>str(n)\<close> for an integer.\<close>

definition digit_char :: "nat \<Rightarrow> char" where
  "digit_char d = char_of (48 + d)"

fun str_of_nat :: "nat \<Rightarrow> string" where
  "str_of_nat n = (if n < 10 then [digit_char n] else str_of_nat (n div 10) @ [digit_char (n mod 10)])"

definition str_of_int :: "int \<Rightarrow> string" where
  "str_of_int i = (if i < 0 then CHR ''-'' # str_of_nat (nat (- i)) else str_of_nat (nat i))"

text \<open>
  \<^verbatim>\<open>int(s)\<close> for an ASCII string: the whitespace that is skipped at both ends is tab,
  newline, vertical tab, form feed, carriage return and space; one sign is allowed, and the
  digits may be grouped by single underscores. The interpreter refuses a string with more
  digits than its limit \<open>maxd\<close> (\<^verbatim>\<open>sys.get_int_max_str_digits()\<close>: 4300 by default,
  0 for no limit); underscores do not count. \<open>None\<close> is Python's \<^verbatim>\<open>ValueError\<close>.
\<close>

definition is_space :: "char \<Rightarrow> bool" where
  "is_space c = (let n = (of_char c :: nat) in (9 \<le> n \<and> n \<le> 13) \<or> n = 32)"

definition py_strip :: "string \<Rightarrow> string" where
  "py_strip s = rev (dropWhile is_space (rev (dropWhile is_space s)))"

definition digit_val :: "char \<Rightarrow> nat option" where
  "digit_val c = (let n = (of_char c :: nat) in if 48 \<le> n \<and> n \<le> 57 then Some (n - 48) else None)"

fun parse_digits :: "nat \<Rightarrow> string \<Rightarrow> nat option" where
  "parse_digits acc [] = Some acc"
| "parse_digits acc [c] = (case digit_val c of None \<Rightarrow> None | Some v \<Rightarrow> Some (10 * acc + v))"
| "parse_digits acc (c # d # ds) =
     (if c = CHR ''_'' then
        (case digit_val d of None \<Rightarrow> None | Some v \<Rightarrow> parse_digits (10 * acc + v) ds)
      else (case digit_val c of None \<Rightarrow> None | Some v \<Rightarrow> parse_digits (10 * acc + v) (d # ds)))"

definition py_int :: "nat \<Rightarrow> string \<Rightarrow> int option" where
  "py_int maxd s =
     (let t = py_strip s;
          neg = (case t of [] \<Rightarrow> False | c # _ \<Rightarrow> c = CHR ''-'');
          body = (case t of [] \<Rightarrow> [] | c # r \<Rightarrow> if c = CHR ''-'' \<or> c = CHR ''+'' then r else t)
      in if 0 < maxd \<and> maxd < length (filter (\<lambda>c. c \<noteq> CHR ''_'') body) then None
         else
           (case body of
              [] \<Rightarrow> None
            | c # cs \<Rightarrow>
                (case digit_val c of
                   None \<Rightarrow> None
                 | Some v \<Rightarrow>
                     (case parse_digits v cs of
                        None \<Rightarrow> None
                      | Some n \<Rightarrow> Some (if neg then - int n else int n)))))"

section \<open>Exceptions and responses\<close>

text \<open>
  The classes of \<^verbatim>\<open>exceptions.py\<close>, each with its message, and any other Python
  exception with its text.
\<close>

datatype exn =
    OSConstructionError string
  | DatabaseConnectionError string
  | ResourceNotFoundError string
  | ValidationError string
  | AuthenticationError string
  | AuthorizationError string
  | DatabaseError string
  | PyException string

record pagination =
  page :: int
  per_page :: int
  total :: int
  pages :: int

text \<open>What \<^verbatim>\<open>jsonify\<close> is given: the bodies the handlers build.\<close>

datatype body =
    JsonError string string
  | JsonRow pydict
  | JsonMessage string
  | JsonPage "pydict list" pagination

type_synonym response = "body \<times> nat"

section \<open>Pagination helpers\<close>

text \<open>
  \<^verbatim>\<open>request.args\<close> is the list of query parameters; \<^verbatim>\<open>args.get(k, d)\<close> reads the
  first value of \<open>k\<close>. The two conversions run in order inside one \<^verbatim>\<open>try\<close>, and a
  \<^verbatim>\<open>ValueError\<close> of either becomes the \<^verbatim>\<open>ValidationError\<close>. \<open>maxd\<close> is the
  interpreter's digit limit for \<^verbatim>\<open>int\<close>.
\<close>

definition get_pagination_params :: "nat \<Rightarrow> (string \<times> string) list \<Rightarrow> exn + (int \<times> int)" where
  "get_pagination_params maxd args =
     (case (case map_of args ''page'' of None \<Rightarrow> Some 1 | Some s \<Rightarrow> py_int maxd s) of
        None \<Rightarrow> Inl (ValidationError ''Invalid pagination parameters'')
      | Some p \<Rightarrow>
          (case (case map_of args ''per_page'' of None \<Rightarrow> Some 10 | Some s \<Rightarrow> py_int maxd s) of
             None \<Rightarrow> Inl (ValidationError ''Invalid pagination parameters'')
           | Some pp \<Rightarrow> Inr (max 1 p, max 1 (min 100 pp))))"

text \<open>
  A query is the list of rows it selects. \<^verbatim>\<open>query.range(lo, hi)\<close> keeps the rows at
  the positions \<open>lo\<close> to \<open>hi\<close>, both included.
\<close>

definition range_rows :: "'a list \<Rightarrow> int \<Rightarrow> int \<Rightarrow> 'a list" where
  "range_rows q lo hi = take (nat (hi - lo + 1)) (drop (nat lo) q)"

definition paginate_query :: "'a list \<Rightarrow> int \<Rightarrow> int \<Rightarrow> 'a list" where
  "paginate_query query pg pp = (let offset = (pg - 1) * pp in range_rows query offset (offset + pp - 1))"

definition format_paginated_response :: "pydict list \<Rightarrow> int \<Rightarrow> int \<Rightarrow> int \<Rightarrow> body" where
  "format_paginated_response data pg pp tot =
     JsonPage data
       \<lparr> page = pg, per_page = pp, total = tot,
         pages = (if tot > 0 then (tot + pp - 1) div pp else 0) \<rparr>"

fun page_info :: "body \<Rightarrow> pagination option" where
  "page_info (JsonPage data p) = Some p"
| "page_info _ = None"

section \<open>The store and the outside world\<close>

text \<open>
  The hosted database, as the handlers see it through the Supabase client: four tables of
  rows. The client's calls are modelled as total functions over this state (no transport
  failure): \<^verbatim>\<open>select().eq(col, v)\<close> filters, \<^verbatim>\<open>insert\<close> appends the row with the
  identifier the database assigns, \<^verbatim>\<open>update(d).eq(col, v)\<close> merges \<open>d\<close> into the matching
  rows, and \<^verbatim>\<open>delete().eq(col, v)\<close> removes them; the last three return the rows they
  touched. Deleting a company removes its children, as the tables' \<^verbatim>\<open>ON DELETE CASCADE\<close>
  says.
\<close>

record store =
  companies :: "pydict list"
  services :: "pydict list"
  projects :: "pydict list"
  employees :: "pydict list"

datatype jwt_result = ExpiredSignatureError | InvalidTokenError | Decoded pydict

text \<open>
  What the program takes from outside itself: the libraries it calls without their
  code being part of the repository (PyJWT's \<^verbatim>\<open>decode\<close> with the configured key, the
  e-mail and date parsers behind pydantic, PostgreSQL's \<^verbatim>\<open>ILIKE\<close>), the process
  environment, the clock, the identifier the database gives the next inserted row, and the
  interpreter's digit limit for \<^verbatim>\<open>int\<close>.
\<close>

record ext =
  jwt_decode :: "string \<Rightarrow> jwt_result"
  validate_email :: "string \<Rightarrow> string option"
  parse_date :: "pyval \<Rightarrow> (nat \<times> nat \<times> nat) option"
  ilike :: "string \<Rightarrow> string \<Rightarrow> bool"
  current_year :: int
  environ :: "(string \<times> string) list"
  utcnow :: string
  new_id :: string
  int_max_str_digits :: nat

definition table :: "store \<Rightarrow> string \<Rightarrow> pydict list" where
  "table st name =
     (if name = ''os_construction'' then companies st
      else if name = ''os_construction_services'' then services st
      else if name = ''os_construction_projects'' then projects st
      else if name = ''os_construction_employees'' then employees st
      else [])"

definition eq_filter :: "string \<Rightarrow> pyval \<Rightarrow> pydict list \<Rightarrow> pydict list" where
  "eq_filter col v rows = filter (\<lambda>r. map_of r col = Some v) rows"

definition neq_filter :: "string \<Rightarrow> pyval \<Rightarrow> pydict list \<Rightarrow> pydict list" where
  "neq_filter col v rows = filter (\<lambda>r. map_of r col \<noteq> Some v) rows"

definition ilike_filter :: "ext \<Rightarrow> string \<Rightarrow> string \<Rightarrow> pydict list \<Rightarrow> pydict list" where
  "ilike_filter x col pat rows =
     filter (\<lambda>r. case map_of r col of Some (PStr s) \<Rightarrow> ilike x pat s | _ \<Rightarrow> False) rows"

definition select_columns :: "string list \<Rightarrow> pydict list \<Rightarrow> pydict list" where
  "select_columns cols rows = map (filter (\<lambda>kv. fst kv \<in> set cols)) rows"

definition insert_row :: "ext \<Rightarrow> pydict \<Rightarrow> pydict list \<Rightarrow> pydict list \<times> pydict list" where
  "insert_row x db_data rows = (let r = (''id'', PStr (new_id x)) # db_data in ([r], rows @ [r]))"

definition update_rows :: "pydict \<Rightarrow> string \<Rightarrow> pyval \<Rightarrow> pydict list \<Rightarrow> pydict list \<times> pydict list" where
  "update_rows db_data col v rows =
     (map (\<lambda>r. AList.merge r db_data) (eq_filter col v rows),
      map (\<lambda>r. if map_of r col = Some v then AList.merge r db_data else r) rows)"

definition delete_company_rows :: "string \<Rightarrow> store \<Rightarrow> pydict list \<times> store" where
  "delete_company_rows cid st =
     (eq_filter ''id'' (PStr cid) (companies st),
      \<lparr> companies = neq_filter ''id'' (PStr cid) (companies st),
        services = neq_filter ''company_id'' (PStr cid) (services st),
        projects = neq_filter ''company_id'' (PStr cid) (projects st),
        employees = neq_filter ''company_id'' (PStr cid) (employees st) \<rparr>)"

definition get_total_count :: "store \<Rightarrow> string \<Rightarrow> int" where
  "get_total_count st name = int (length (table st name))"

section \<open>The schemas of models.py\<close>

text \<open>
  The pydantic models, as data: a field has a name, a type, whether it is required,
  whether \<^verbatim>\<open>None\<close> is allowed (\<^verbatim>\<open>Optional\<close>), its default and its length bounds. The
  validation that pydantic 1.x runs over such a model (the API that \<^verbatim>\<open>validator\<close> and
  \<^verbatim>\<open>.dict()\<close> belong to) is \<open>validate_model\<close>: the fields are validated one by one in
  declaration order, every error is collected under the field's name, a missing optional
  field takes its default unvalidated, and unknown keys of the payload are ignored.
\<close>

datatype ftype = TStr | TInt | TBool | TEmailStr | TDate

datatype field =
  Field (fname: string) (ftype: ftype) (frequired: bool) (fallow_none: bool)
        (fdefault: pyval) (fmin_length: "nat option") (fmax_length: "nat option")

definition lower_char :: "char \<Rightarrow> char" where
  "lower_char c = (let n = (of_char c :: nat) in if 65 \<le> n \<and> n \<le> 90 then char_of (n + 32) else c)"

definition py_lower :: "string \<Rightarrow> string" where
  "py_lower s = map lower_char s"

definition str_validator :: "pyval \<Rightarrow> string + string" where
  "str_validator v =
     (case v of
        PStr s \<Rightarrow> Inr s
      | PInt n \<Rightarrow> Inr (str_of_int n)
      | PBool b \<Rightarrow> Inr (if b then ''True'' else ''False'')
      | _ \<Rightarrow> Inl ''str type expected'')"

definition int_validator :: "nat \<Rightarrow> pyval \<Rightarrow> string + int" where
  "int_validator maxd v =
     (case v of
        PInt n \<Rightarrow> Inr n
      | PBool b \<Rightarrow> Inr (if b then 1 else 0)
      | PStr s \<Rightarrow> (case py_int maxd s of None \<Rightarrow> Inl ''value is not a valid integer'' | Some n \<Rightarrow> Inr n)
      | _ \<Rightarrow> Inl ''value is not a valid integer'')"

definition bool_validator :: "pyval \<Rightarrow> string + bool" where
  "bool_validator v =
     (case v of
        PBool b \<Rightarrow> Inr b
      | PInt n \<Rightarrow>
          (if n = 1 then Inr True else if n = 0 then Inr False
           else Inl ''value could not be parsed to a boolean'')
      | PStr s \<Rightarrow>
          (if py_lower s \<in> set [''on'', ''t'', ''true'', ''y'', ''yes'', ''1''] then Inr True
           else if py_lower s \<in> set [''off'', ''f'', ''false'', ''n'', ''no'', ''0''] then Inr False
           else Inl ''value could not be parsed to a boolean'')
      | _ \<Rightarrow> Inl ''value could not be parsed to a boolean'')"

definition type_validator :: "ext \<Rightarrow> ftype \<Rightarrow> pyval \<Rightarrow> string + pyval" where
  "type_validator x t v =
     (case t of
        TStr \<Rightarrow> (case str_validator v of Inl m \<Rightarrow> Inl m | Inr s \<Rightarrow> Inr (PStr s))
      | TInt \<Rightarrow> (case int_validator (int_max_str_digits x) v of Inl m \<Rightarrow> Inl m | Inr n \<Rightarrow> Inr (PInt n))
      | TBool \<Rightarrow> (case bool_validator v of Inl m \<Rightarrow> Inl m | Inr b \<Rightarrow> Inr (PBool b))
      | TEmailStr \<Rightarrow>
          (case str_validator v of
             Inl m \<Rightarrow> Inl m
           | Inr s \<Rightarrow>
               (case validate_email x s of
                  None \<Rightarrow> Inl ''value is not a valid email address''
                | Some e \<Rightarrow> Inr (PStr e)))
      | TDate \<Rightarrow>
          (case parse_date x v of
             None \<Rightarrow> Inl ''invalid date format''
           | Some (y, m, d) \<Rightarrow> Inr (PDate y m d)))"

definition length_validator :: "field \<Rightarrow> pyval \<Rightarrow> string + pyval" where
  "length_validator fld v =
     (case v of
        PStr s \<Rightarrow>
          (case fmin_length fld of
             Some lo \<Rightarrow>
               if length s < lo
               then Inl (''ensure this value has at least '' @ str_of_nat lo @ '' characters'')
               else (case fmax_length fld of
                       Some hi \<Rightarrow>
                         if length s > hi
                         then Inl (''ensure this value has at most '' @ str_of_nat hi @ '' characters'')
                         else Inr v
                     | None \<Rightarrow> Inr v)
           | None \<Rightarrow>
               (case fmax_length fld of
                  Some hi \<Rightarrow>
                    if length s > hi
                    then Inl (''ensure this value has at most '' @ str_of_nat hi @ '' characters'')
                    else Inr v
                | None \<Rightarrow> Inr v))
      | _ \<Rightarrow> Inr v)"

type_synonym validators = "string \<Rightarrow> pydict \<Rightarrow> pyval \<Rightarrow> string + pyval"

definition validate_field :: "ext \<Rightarrow> validators \<Rightarrow> pydict \<Rightarrow> field \<Rightarrow> pyval \<Rightarrow> string + pyval" where
  "validate_field x vs vals fld v =
     (if v = PNone then
        (if fallow_none fld then vs (fname fld) vals v else Inl ''none is not an allowed value'')
      else
        (case type_validator x (ftype fld) v of
           Inl m \<Rightarrow> Inl m
         | Inr v1 \<Rightarrow>
             (case length_validator fld v1 of
                Inl m \<Rightarrow> Inl m
              | Inr v2 \<Rightarrow> vs (fname fld) vals v2)))"

fun validate_fields ::
  "ext \<Rightarrow> validators \<Rightarrow> pydict \<Rightarrow> field list \<Rightarrow> pydict \<Rightarrow> (string \<times> string) list
     \<Rightarrow> pydict \<times> (string \<times> string) list" where
  "validate_fields x vs data [] vals errors = (vals, errors)"
| "validate_fields x vs data (fld # flds) vals errors =
     (case map_of data (fname fld) of
        None \<Rightarrow>
          (if frequired fld
           then validate_fields x vs data flds vals (errors @ [(fname fld, ''field required'')])
           else validate_fields x vs data flds (vals @ [(fname fld, fdefault fld)]) errors)
      | Some v \<Rightarrow>
          (case validate_field x vs vals fld v of
             Inl m \<Rightarrow> validate_fields x vs data flds vals (errors @ [(fname fld, m)])
           | Inr v' \<Rightarrow> validate_fields x vs data flds (vals @ [(fname fld, v')]) errors))"

definition validate_model ::
  "ext \<Rightarrow> validators \<Rightarrow> field list \<Rightarrow> pydict \<Rightarrow> (string \<times> string) list + pydict" where
  "validate_model x vs flds data =
     (case validate_fields x vs data flds [] [] of
        (vals, errors) \<Rightarrow> if errors \<noteq> [] then Inl errors else Inr vals)"

definition CompanyCreate_fields :: "field list" where
  "CompanyCreate_fields =
     [Field ''company_name'' TStr True False PNone (Some 1) (Some 255),
      Field ''company_address'' TStr True False PNone None None,
      Field ''company_email'' TEmailStr True False PNone None None,
      Field ''company_phone'' TStr True False PNone (Some 5) (Some 50),
      Field ''website'' TStr False True PNone None None,
      Field ''description'' TStr False True PNone None None,
      Field ''founded_year'' TInt False True PNone None None,
      Field ''is_verified'' TBool False False (PBool False) None None]"

definition CompanyUpdate_fields :: "field list" where
  "CompanyUpdate_fields =
     [Field ''company_name'' TStr False True PNone (Some 1) (Some 255),
      Field ''company_address'' TStr False True PNone None None,
      Field ''company_email'' TEmailStr False True PNone None None,
      Field ''company_phone'' TStr False True PNone (Some 5) (Some 50),
      Field ''website'' TStr False True PNone None None,
      Field ''description'' TStr False True PNone None None,
      Field ''founded_year'' TInt False True PNone None None,
      Field ''is_verified'' TBool False True PNone None None]"

text \<open>\<^verbatim>\<open>validate_founded_year\<close>, of both company models.\<close>

definition company_validators :: "ext \<Rightarrow> validators" where
  "company_validators x name vals v =
     (if name = ''founded_year'' then
        (case v of
           PInt y \<Rightarrow>
             if y < 1800 \<or> y > current_year x
             then Inl (''Founded year must be between 1800 and '' @ str_of_int (current_year x))
             else Inr v
         | _ \<Rightarrow> Inr v)
      else Inr v)"

definition ServiceCreate_fields :: "field list" where
  "ServiceCreate_fields =
     [Field ''service_name'' TStr True False PNone (Some 1) (Some 255),
      Field ''description'' TStr False True PNone None None,
      Field ''is_free'' TBool False False (PBool True) None None,
      Field ''eligibility_criteria'' TStr False True PNone None None]"

definition no_validators :: validators where
  "no_validators name vals v = Inr v"

definition ProjectCreate_fields :: "field list" where
  "ProjectCreate_fields =
     [Field ''project_name'' TStr True False PNone (Some 1) (Some 255),
      Field ''location'' TStr True False PNone None None,
      Field ''start_date'' TDate False True PNone None None,
      Field ''end_date'' TDate False True PNone None None,
      Field ''status'' TStr False False (PStr ''planned'') None None,
      Field ''description'' TStr False True PNone None None,
      Field ''beneficiary_info'' TStr False True PNone None None]"

definition valid_statuses :: "string list" where
  "valid_statuses = [''planned'', ''in_progress'', ''completed'', ''cancelled'', ''on_hold'']"

definition date_less :: "nat \<times> nat \<times> nat \<Rightarrow> nat \<times> nat \<times> nat \<Rightarrow> bool" where
  "date_less a b =
     (case (a, b) of
        ((y1, m1, d1), (y2, m2, d2)) \<Rightarrow>
          y1 < y2 \<or> (y1 = y2 \<and> (m1 < m2 \<or> (m1 = m2 \<and> d1 < d2))))"

text \<open>
  \<^verbatim>\<open>validate_end_date\<close> and \<^verbatim>\<open>validate_status\<close> of \<^verbatim>\<open>ProjectBase\<close>. The status
  message prints the Python list of the allowed values.
\<close>

definition project_validators :: validators where
  "project_validators name vals v =
     (if name = ''end_date'' then
        (case (v, map_of vals ''start_date'') of
           (PDate y m d, Some (PDate y0 m0 d0)) \<Rightarrow>
             if date_less (y, m, d) (y0, m0, d0) then Inl ''End date must be after start date''
             else Inr v
         | _ \<Rightarrow> Inr v)
      else if name = ''status'' then
        (case v of
           PStr s \<Rightarrow>
             if s \<notin> set valid_statuses
             then Inl (''Status must be one of ['' @
                         py_join '', '' (map (\<lambda>t. [CHR 39] @ t @ [CHR 39]) valid_statuses) @ '']'')
             else Inr v
         | _ \<Rightarrow> Inr v)
      else Inr v)"

definition EmployeeCreate_fields :: "field list" where
  "EmployeeCreate_fields =
     [Field ''full_name'' TStr True False PNone (Some 1) (Some 255),
      Field ''position'' TStr True False PNone (Some 1) (Some 100),
      Field ''email'' TEmailStr False True PNone None None,
      Field ''phone'' TStr False True PNone None None,
      Field ''specialization'' TStr False True PNone None None,
      Field ''join_date'' TDate False True PNone None None]"

section \<open>The handlers of app_improved.py\<close>

text \<open>
  A request carries the \<^verbatim>\<open>Authorization\<close> header, the query parameters, the JSON body
  (an object) and the two attributes that \<^verbatim>\<open>token_required\<close> sets on it. A view
  function takes the request and the store and gives back what it returned or raised,
  with the store it left behind.
\<close>

record request =
  authorization :: "string option"
  args :: "(string \<times> string) list"
  json :: pydict
  user_id :: "pyval option"
  username :: "pyval option"

type_synonym outcome = "(exn + response) \<times> store"

type_synonym view = "request \<Rightarrow> store \<Rightarrow> outcome"

definition is_OSConstructionError :: "exn \<Rightarrow> bool" where
  "is_OSConstructionError e = (case e of PyException m \<Rightarrow> False | _ \<Rightarrow> True)"

fun exn_str :: "exn \<Rightarrow> string" where
  "exn_str (OSConstructionError m) = m"
| "exn_str (DatabaseConnectionError m) = m"
| "exn_str (ResourceNotFoundError m) = m"
| "exn_str (ValidationError m) = m"
| "exn_str (AuthenticationError m) = m"
| "exn_str (AuthorizationError m) = m"
| "exn_str (DatabaseError m) = m"
| "exn_str (PyException m) = m"

text \<open>
  The closing \<^verbatim>\<open>except Exception\<close> of every handler: an exception of the application
  is raised again, anything else becomes a \<^verbatim>\<open>DatabaseConnectionError\<close>.
\<close>

definition except_Exception :: "string \<Rightarrow> outcome \<Rightarrow> outcome" where
  "except_Exception failed r =
     (case fst r of
        Inl e \<Rightarrow>
          if is_OSConstructionError e then r
          else (Inl (DatabaseConnectionError (failed @ '': '' @ exn_str e)), snd r)
      | Inr resp \<Rightarrow> r)"

text \<open>
  The \<^verbatim>\<open>except PydanticValidationError\<close> of the handlers that validate: the entries of
  \<^verbatim>\<open>e.errors()\<close> are printed as \<^verbatim>\<open>loc: msg\<close> and joined into the one message of the
  \<^verbatim>\<open>ValidationError\<close> raised in their place.
\<close>

definition invalid_data :: "(string \<times> string) list \<Rightarrow> exn" where
  "invalid_data errors =
     ValidationError (''Invalid data: '' @ py_join ''; '' (map (\<lambda>err. fst err @ '': '' @ snd err) errors))"

definition not_found :: "string \<Rightarrow> exn" where
  "not_found company_id = ResourceNotFoundError (''Company with ID '' @ company_id @ '' not found'')"

definition handle_custom_exception :: "exn \<Rightarrow> response" where
  "handle_custom_exception e =
     (case e of
        ResourceNotFoundError m \<Rightarrow> (JsonError ''Not Found'' m, 404)
      | ValidationError m \<Rightarrow> (JsonError ''Validation Error'' m, 400)
      | AuthenticationError m \<Rightarrow> (JsonError ''Authentication Error'' m, 401)
      | AuthorizationError m \<Rightarrow> (JsonError ''Authorization Error'' m, 403)
      | DatabaseConnectionError m \<Rightarrow> (JsonError ''Database Connection Error'' m, 503)
      | _ \<Rightarrow> (JsonError ''Application Error'' (exn_str e), 500))"

definition handle_generic_exception :: "exn \<Rightarrow> response" where
  "handle_generic_exception e = (JsonError ''Internal Server Error'' ''An unexpected error occurred'', 500)"

text \<open>Flask's dispatch: a returned response goes out as it is, a raised exception through its handler.\<close>

definition flask :: "outcome \<Rightarrow> response \<times> store" where
  "flask r =
     (case fst r of
        Inr resp \<Rightarrow> (resp, snd r)
      | Inl e \<Rightarrow>
          (if is_OSConstructionError e then handle_custom_exception e
           else handle_generic_exception e, snd r))"

definition get_companies :: "ext \<Rightarrow> view" where
  "get_companies x req st =
     except_Exception ''Failed to retrieve companies''
       (case get_pagination_params (int_max_str_digits x) (args req) of
          Inl e \<Rightarrow> (Inl e, st)
        | Inr (pg, pp) \<Rightarrow>
            (let is_verified = map_of (args req) ''is_verified'';
                 name_search = map_of (args req) ''name'';
                 query0 = table st ''os_construction'';
                 query1 = (case is_verified of
                             None \<Rightarrow> query0
                           | Some s \<Rightarrow> eq_filter ''is_verified'' (PBool (py_lower s = ''true'')) query0);
                 query2 = (case name_search of
                             None \<Rightarrow> query1
                           | Some n \<Rightarrow>
                               if n = [] then query1
                               else ilike_filter x ''company_name'' (''%'' @ n @ ''%'') query1);
                 total_count = get_total_count st ''os_construction'';
                 data = paginate_query query2 pg pp
             in (Inr (format_paginated_response data pg pp total_count, 200), st)))"

definition create_company :: "ext \<Rightarrow> view" where
  "create_company x req st =
     except_Exception ''Failed to create company''
       (let data = json req in
        if data = [] then (Inl (ValidationError ''No data provided''), st)
        else
          (case validate_model x (company_validators x) CompanyCreate_fields data of
             Inl errors \<Rightarrow> (Inl (invalid_data errors), st)
           | Inr company_data \<Rightarrow>
               (let db_data = AList.update ''updated_at'' (PStr (utcnow x))
                                (AList.update ''created_at'' (PStr (utcnow x)) company_data);
                    ins = insert_row x db_data (companies st);
                    st' = st\<lparr>companies := snd ins\<rparr>
                in case fst ins of
                     [] \<Rightarrow> (Inl (DatabaseConnectionError ''Failed to create company''), st')
                   | r # rs \<Rightarrow> (Inr (JsonRow r, 201), st'))))"

definition update_company :: "ext \<Rightarrow> string \<Rightarrow> view" where
  "update_company x company_id req st =
     except_Exception ''Failed to update company''
       (let data = json req in
        if data = [] then (Inl (ValidationError ''No data provided''), st)
        else
          (case validate_model x (company_validators x) CompanyUpdate_fields data of
             Inl errors \<Rightarrow> (Inl (invalid_data errors), st)
           | Inr company_data \<Rightarrow>
               (let db_data = AList.update ''updated_at'' (PStr (utcnow x))
                                (filter (\<lambda>kv. snd kv \<noteq> PNone) company_data);
                    check = select_columns [''id''] (eq_filter ''id'' (PStr company_id) (companies st))
                in if check = [] then (Inl (not_found company_id), st)
                   else
                     (let upd = update_rows db_data ''id'' (PStr company_id) (companies st);
                          st' = st\<lparr>companies := snd upd\<rparr>
                      in case fst upd of
                           [] \<Rightarrow> (Inl (DatabaseConnectionError ''Failed to update company''), st')
                         | r # rs \<Rightarrow> (Inr (JsonRow r, 200), st')))))"

definition delete_company :: "ext \<Rightarrow> string \<Rightarrow> view" where
  "delete_company x company_id req st =
     except_Exception ''Failed to delete company''
       (let check = select_columns [''id''] (eq_filter ''id'' (PStr company_id) (companies st))
        in if check = [] then (Inl (not_found company_id), st)
           else
             (let del = delete_company_rows company_id st
              in case fst del of
                   [] \<Rightarrow> (Inl (DatabaseConnectionError ''Failed to delete company''), snd del)
                 | r # rs \<Rightarrow>
                     (Inr (JsonMessage (''Company with ID '' @ company_id @ '' deleted successfully''), 200),
                      snd del)))"

definition add_company_service :: "ext \<Rightarrow> string \<Rightarrow> view" where
  "add_company_service x company_id req st =
     except_Exception ''Failed to add service''
       (let data = json req in
        if data = [] then (Inl (ValidationError ''No data provided''), st)
        else
          (case validate_model x no_validators ServiceCreate_fields data of
             Inl errors \<Rightarrow> (Inl (invalid_data errors), st)
           | Inr service_data \<Rightarrow>
               (let check = select_columns [''id''] (eq_filter ''id'' (PStr company_id) (companies st))
                in if check = [] then (Inl (not_found company_id), st)
                   else
                     (let db_data = AList.update ''updated_at'' (PStr (utcnow x))
                                      (AList.update ''created_at'' (PStr (utcnow x))
                                        (AList.update ''company_id'' (PStr company_id) service_data));
                          ins = insert_row x db_data (services st);
                          st' = st\<lparr>services := snd ins\<rparr>
                      in case fst ins of
                           [] \<Rightarrow> (Inl (DatabaseConnectionError ''Failed to create service''), st')
                         | r # rs \<Rightarrow> (Inr (JsonRow r, 201), st')))))"

text \<open>\<^verbatim>\<open>date.isoformat()\<close>: \<^verbatim>\<open>YYYY-MM-DD\<close>.\<close>

definition zero_pad :: "nat \<Rightarrow> string \<Rightarrow> string" where
  "zero_pad w s = replicate (w - length s) CHR ''0'' @ s"

definition isoformat :: "nat \<Rightarrow> nat \<Rightarrow> nat \<Rightarrow> string" where
  "isoformat y m d =
     zero_pad 4 (str_of_nat y) @ ''-'' @ zero_pad 2 (str_of_nat m) @ ''-'' @ zero_pad 2 (str_of_nat d)"

definition date_to_iso :: "string \<Rightarrow> pydict \<Rightarrow> pydict" where
  "date_to_iso k db_data =
     (case map_of db_data k of
        Some (PDate y m d) \<Rightarrow> AList.update k (PStr (isoformat y m d)) db_data
      | _ \<Rightarrow> db_data)"

definition add_company_project :: "ext \<Rightarrow> string \<Rightarrow> view" where
  "add_company_project x company_id req st =
     except_Exception ''Failed to add project''
       (let data = json req in
        if data = [] then (Inl (ValidationError ''No data provided''), st)
        else
          (case validate_model x project_validators ProjectCreate_fields data of
             Inl errors \<Rightarrow> (Inl (invalid_data errors), st)
           | Inr project_data \<Rightarrow>
               (let check = select_columns [''id''] (eq_filter ''id'' (PStr company_id) (companies st))
                in if check = [] then (Inl (not_found company_id), st)
                   else
                     (let db_data = AList.update ''updated_at'' (PStr (utcnow x))
                                      (AList.update ''created_at'' (PStr (utcnow x))
                                        (date_to_iso ''end_date''
                                          (date_to_iso ''start_date''
                                            (AList.update ''company_id'' (PStr company_id) project_data))));
                          ins = insert_row x db_data (projects st);
                          st' = st\<lparr>projects := snd ins\<rparr>
                      in case fst ins of
                           [] \<Rightarrow> (Inl (DatabaseConnectionError ''Failed to create project''), st')
                         | r # rs \<Rightarrow> (Inr (JsonRow r, 201), st')))))"

definition add_company_employee :: "ext \<Rightarrow> string \<Rightarrow> view" where
  "add_company_employee x company_id req st =
     except_Exception ''Failed to add employee''
       (let data = json req in
        if data = [] then (Inl (ValidationError ''No data provided''), st)
        else
          (case validate_model x no_validators EmployeeCreate_fields data of
             Inl errors \<Rightarrow> (Inl (invalid_data errors), st)
           | Inr employee_data \<Rightarrow>
               (let check = select_columns [''id''] (eq_filter ''id'' (PStr company_id) (companies st))
                in if check = [] then (Inl (not_found company_id), st)
                   else
                     (let db_data = AList.update ''updated_at'' (PStr (utcnow x))
                                      (AList.update ''created_at'' (PStr (utcnow x))
                                        (date_to_iso ''join_date''
                                          (AList.update ''company_id'' (PStr company_id) employee_data)));
                          ins = insert_row x db_data (employees st);
                          st' = st\<lparr>employees := snd ins\<rparr>
                      in case fst ins of
                           [] \<Rightarrow> (Inl (DatabaseConnectionError ''Failed to create employee''), st')
                         | r # rs \<Rightarrow> (Inr (JsonRow r, 201), st')))))"

text \<open>The project listing counts the rows of its own filtered query.\<close>

definition get_company_projects :: "ext \<Rightarrow> string \<Rightarrow> view" where
  "get_company_projects x company_id req st =
     except_Exception ''Failed to retrieve projects''
       (case get_pagination_params (int_max_str_digits x) (args req) of
          Inl e \<Rightarrow> (Inl e, st)
        | Inr (pg, pp) \<Rightarrow>
            (let status = map_of (args req) ''status'';
                 check = select_columns [''id''] (eq_filter ''id'' (PStr company_id) (companies st))
             in if check = [] then (Inl (not_found company_id), st)
                else
                  (let query0 = eq_filter ''company_id'' (PStr company_id) (table st ''os_construction_projects'')
                   in if status \<noteq> None \<and> status \<noteq> Some [] \<and> the status \<notin> set valid_statuses
                      then (Inl (ValidationError
                                  (''Invalid status. Must be one of ['' @
                                     py_join '', '' (map (\<lambda>t. [CHR 39] @ t @ [CHR 39]) valid_statuses) @ '']'')),
                            st)
                      else
                        (let query1 = (case status of
                                         None \<Rightarrow> query0
                                       | Some s \<Rightarrow> if s = [] then query0
                                                   else eq_filter ''status'' (PStr s) query0);
                             total_count = int (length query1);
                             data = paginate_query query1 pg pp
                         in (Inr (format_paginated_response data pg pp total_count, 200), st)))))"

section \<open>The decorators of authentication.py\<close>

definition decode_token :: "ext \<Rightarrow> string \<Rightarrow> exn + pydict" where
  "decode_token x token =
     (case jwt_decode x token of
        ExpiredSignatureError \<Rightarrow> Inl (AuthenticationError ''Token expired. Please log in again.'')
      | InvalidTokenError \<Rightarrow> Inl (AuthenticationError ''Invalid token. Please log in again.'')
      | Decoded payload \<Rightarrow> Inr payload)"

text \<open>
  The token that \<^verbatim>\<open>token_required\<close> reads from a header: the second piece of the header
  split at the spaces, when the header starts with \<^verbatim>\<open>Bearer \<close> (such a header always
  has a second piece).
\<close>

definition header_token :: "string \<Rightarrow> string option" where
  "header_token auth_header =
     (if startswith auth_header ''Bearer '' then
        (case py_split CHR '' '' auth_header of a # t # r \<Rightarrow> Some t | _ \<Rightarrow> None)
      else None)"

definition token_required :: "ext \<Rightarrow> view \<Rightarrow> view" where
  "token_required x f req st =
     (let token = (case authorization req of None \<Rightarrow> None | Some auth_header \<Rightarrow> header_token auth_header)
      in case token of
           None \<Rightarrow> (Inr (JsonError ''Authentication required'' ''Token is missing'', 401), st)
         | Some tok \<Rightarrow>
             if tok = [] then (Inr (JsonError ''Authentication required'' ''Token is missing'', 401), st)
             else
               (case decode_token x tok of
                  Inl e \<Rightarrow>
                    (case e of
                       AuthenticationError m \<Rightarrow> (Inr (JsonError ''Authentication failed'' m, 401), st)
                     | _ \<Rightarrow> (Inl e, st))
                | Inr payload \<Rightarrow>
                    (case map_of payload ''sub'' of
                       None \<Rightarrow> (Inl (PyException ''KeyError''), st)
                     | Some sub \<Rightarrow>
                         (case map_of payload ''username'' of
                            None \<Rightarrow> (Inl (PyException ''KeyError''), st)
                          | Some un \<Rightarrow> f (req\<lparr>user_id := Some sub, username := Some un\<rparr>) st))))"

definition admin_user_ids :: "ext \<Rightarrow> string list" where
  "admin_user_ids x =
     py_split CHR '','' (case map_of (environ x) ''ADMIN_USER_IDS'' of None \<Rightarrow> [] | Some s \<Rightarrow> s)"

definition admin_required :: "ext \<Rightarrow> view \<Rightarrow> view" where
  "admin_required x f req st =
     (case user_id req of
        None \<Rightarrow> (Inr (JsonError ''Authorization failed'' ''Admin privileges required'', 403), st)
      | Some u \<Rightarrow>
          if u \<notin> set (map PStr (admin_user_ids x))
          then (Inr (JsonError ''Authorization failed'' ''Admin privileges required'', 403), st)
          else f req st)"

section \<open>The routes\<close>

definition route_create_company :: "ext \<Rightarrow> request \<Rightarrow> store \<Rightarrow> response \<times> store" where
  "route_create_company x req st = flask (token_required x (create_company x) req st)"

definition route_update_company :: "ext \<Rightarrow> string \<Rightarrow> request \<Rightarrow> store \<Rightarrow> response \<times> store" where
  "route_update_company x company_id req st = flask (token_required x (update_company x company_id) req st)"

definition route_delete_company :: "ext \<Rightarrow> string \<Rightarrow> request \<Rightarrow> store \<Rightarrow> response \<times> store" where
  "route_delete_company x company_id req st =
     flask (token_required x (admin_required x (delete_company x company_id)) req st)"

definition route_add_company_service :: "ext \<Rightarrow> string \<Rightarrow> request \<Rightarrow> store \<Rightarrow> response \<times> store" where
  "route_add_company_service x company_id req st =
     flask (token_required x (add_company_service x company_id) req st)"

definition route_add_company_project :: "ext \<Rightarrow> string \<Rightarrow> request \<Rightarrow> store \<Rightarrow> response \<times> store" where
  "route_add_company_project x company_id req st =
     flask (token_required x (add_company_project x company_id) req st)"

definition route_add_company_employee :: "ext \<Rightarrow> string \<Rightarrow> request \<Rightarrow> store \<Rightarrow> response \<times> store" where
  "route_add_company_employee x company_id req st =
     flask (token_required x (add_company_employee x company_id) req st)"

definition route_get_companies :: "ext \<Rightarrow> request \<Rightarrow> store \<Rightarrow> response \<times> store" where
  "route_get_companies x req st = flask (get_companies x req st)"

section \<open>A sample world\<close>

text \<open>
  Concrete values for the evaluations below: a token decoder that knows four tokens, an
  allow-list of two administrators, and a store with two companies.
\<close>

definition ext0 :: ext where
  "ext0 =
     \<lparr> jwt_decode = (\<lambda>t.
         if t = ''t1'' then Decoded [(''sub'', PStr ''u1''), (''username'', PStr ''ann'')]
         else if t = ''t2'' then Decoded [(''sub'', PStr ''u2''), (''username'', PStr ''bob'')]
         else if t = ''t3'' then Decoded [(''sub'', PStr []), (''username'', PStr ''eve'')]
         else if t = ''old'' then ExpiredSignatureError
         else InvalidTokenError),
       validate_email = (\<lambda>s. if CHR ''@'' \<in> set s then Some s else None),
       parse_date = (\<lambda>v. None),
       ilike = (\<lambda>p s. True),
       current_year = 2024,
       environ = [(''ADMIN_USER_IDS'', ''u0,u1'')],
       utcnow = ''2024-05-01'',
       new_id = ''c9'',
       int_max_str_digits = 4300 \<rparr>"

definition company1 :: pydict where
  "company1 = [(''id'', PStr ''c1''), (''company_name'', PStr ''Acme''), (''website'', PStr ''a.org''),
               (''is_verified'', PBool True), (''updated_at'', PStr ''2020-01-01'')]"

definition company2 :: pydict where
  "company2 = [(''id'', PStr ''c2''), (''company_name'', PStr ''Bolt''), (''website'', PNone),
               (''is_verified'', PBool False), (''updated_at'', PStr ''2020-01-01'')]"

definition store0 :: store where
  "store0 = \<lparr> companies = [company1, company2], services = [], projects = [], employees = [] \<rparr>"

definition request0 :: request where
  "request0 = \<lparr> authorization = None, args = [], json = [], user_id = None, username = None \<rparr>"

definition ext1 :: ext where
  "ext1 = ext0\<lparr>environ := []\<rparr>"

section \<open>Facts about the helpers\<close>

lemma py_split_no_sep: "sep \<notin> set s \<Longrightarrow> py_split sep s = [s]"
  by (induction s) auto

lemma py_split_append_sep:
  "sep \<notin> set a \<Longrightarrow> py_split sep (a @ sep # b) = a # py_split sep b"
  by (induction a) auto

lemma header_token_bearer:
  assumes "CHR '' '' \<notin> set tok"
  shows "header_token (''Bearer '' @ tok) = Some tok"
proof -
  have "py_split CHR '' '' (''Bearer'' @ CHR '' '' # tok) = ''Bearer'' # py_split CHR '' '' tok"
    by (rule py_split_append_sep) simp
  then have "py_split CHR '' '' (''Bearer '' @ tok) = [''Bearer'', tok]"
    using assms by (simp add: py_split_no_sep)
  then show ?thesis by (simp add: header_token_def startswith_def)
qed

lemma header_token_second_piece:
  assumes "startswith h ''Bearer ''"
  shows "\<exists>a t r. py_split CHR '' '' h = a # t # r"
proof -
  define rest where "rest = drop 7 h"
  have l: "length ''Bearer '' = 7" by simp
  have "take 7 h = ''Bearer ''" using assms unfolding startswith_def l .
  then have "take 7 h @ drop 7 h = ''Bearer '' @ rest" by (simp only: rest_def)
  then have h: "h = ''Bearer'' @ CHR '' '' # rest" by simp
  have "py_split CHR '' '' (''Bearer'' @ CHR '' '' # rest) = ''Bearer'' # py_split CHR '' '' rest"
    by (rule py_split_append_sep) simp
  then have s: "py_split CHR '' '' h = ''Bearer'' # py_split CHR '' '' rest"
    by (simp only: h)
  have "py_split CHR '' '' rest \<noteq> []"
    by (cases rest) (auto split: list.splits)
  then obtain t r where "py_split CHR '' '' rest = t # r"
    by (cases "py_split CHR '' '' rest") auto
  then show ?thesis using s by simp
qed

lemma token_required_admits:
  assumes "authorization req = Some (''Bearer '' @ tok)" and "tok \<noteq> []" and "CHR '' '' \<notin> set tok"
    and "jwt_decode x tok = Decoded payload"
    and "map_of payload ''sub'' = Some u" and "map_of payload ''username'' = Some n"
  shows "token_required x f req st = f (req\<lparr>user_id := Some u, username := Some n\<rparr>) st"
  using assms header_token_bearer [of tok] by (simp add: token_required_def decode_token_def)

lemma token_required_missing:
  assumes "authorization req = None \<or> (\<exists>h. authorization req = Some h \<and> \<not> startswith h ''Bearer '')"
  shows "token_required x f req st = (Inr (JsonError ''Authentication required'' ''Token is missing'', 401), st)"
  using assms by (auto simp add: token_required_def header_token_def)

lemma token_required_expired:
  assumes "authorization req = Some (''Bearer '' @ tok)" and "tok \<noteq> []" and "CHR '' '' \<notin> set tok"
    and "jwt_decode x tok = ExpiredSignatureError"
  shows "token_required x f req st =
           (Inr (JsonError ''Authentication failed'' ''Token expired. Please log in again.'', 401), st)"
  using assms header_token_bearer [of tok] by (simp add: token_required_def decode_token_def)

lemma admin_required_cases:
  "admin_required x f req st =
     (if \<exists>s \<in> set (admin_user_ids x). user_id req = Some (PStr s) then f req st
      else (Inr (JsonError ''Authorization failed'' ''Admin privileges required'', 403), st))"
  by (auto simp add: admin_required_def split: option.splits)

lemma flask_response: "flask (Inr resp, st) = (resp, st)"
  by (simp add: flask_def)

lemma flask_not_found:
  "flask (Inl (not_found cid), st) = ((JsonError ''Not Found'' (''Company with ID '' @ cid @ '' not found''), 404), st)"
  by (simp add: flask_def not_found_def is_OSConstructionError_def handle_custom_exception_def)

lemma flask_validation:
  "flask (Inl (ValidationError m), st) = ((JsonError ''Validation Error'' m, 400), st)"
  by (simp add: flask_def is_OSConstructionError_def handle_custom_exception_def)

lemma except_Exception_app:
  "is_OSConstructionError e \<Longrightarrow> except_Exception failed (Inl e, st) = (Inl e, st)"
  "except_Exception failed (Inr resp, st) = (Inr resp, st)"
  by (simp_all add: except_Exception_def)

lemma is_OSConstructionError_simps:
  "is_OSConstructionError (not_found cid)"
  "is_OSConstructionError (ValidationError m)"
  "is_OSConstructionError (invalid_data errs)"
  "is_OSConstructionError (DatabaseConnectionError m)"
  by (simp_all add: is_OSConstructionError_def not_found_def invalid_data_def)

lemma select_columns_empty: "select_columns cols rows = [] \<longleftrightarrow> rows = []"
  by (simp add: select_columns_def)

lemma delete_company_present:
  assumes "eq_filter ''id'' (PStr cid) (companies st) \<noteq> []"
  shows "delete_company x cid req st =
           (Inr (JsonMessage (''Company with ID '' @ cid @ '' deleted successfully''), 200),
            snd (delete_company_rows cid st))"
proof -
  obtain r rs where "eq_filter ''id'' (PStr cid) (companies st) = r # rs"
    using assms by (cases "eq_filter ''id'' (PStr cid) (companies st)") auto
  then show ?thesis
    by (simp add: delete_company_def select_columns_empty delete_company_rows_def except_Exception_app)
qed

lemma delete_company_absent:
  assumes "eq_filter ''id'' (PStr cid) (companies st) = []"
  shows "delete_company x cid req st = (Inl (not_found cid), st)"
  using assms
  by (simp add: delete_company_def select_columns_empty except_Exception_app is_OSConstructionError_simps)

lemma deleted_is_absent:
  "eq_filter ''id'' (PStr cid) (companies (snd (delete_company_rows cid st))) = []"
  by (simp add: delete_company_rows_def eq_filter_def neq_filter_def filter_empty_conv)


lemma admin_user_ids_ext0: "admin_user_ids ext0 = [''u0'', ''u1'']"
  by (simp add: admin_user_ids_def ext0_def)


lemma companies_store0: "companies store0 = [company1, company2]"
  by (simp add: store0_def)

lemma eq_filter_c1_store0: "eq_filter ''id'' (PStr ''c1'') (companies store0) = [company1]"
  by (simp add: companies_store0 eq_filter_def company1_def company2_def)

lemma delete_c1_store0:
  "snd (delete_company_rows ''c1'' store0)
     = \<lparr> companies = [company2], services = [], projects = [], employees = [] \<rparr>"
  by (simp add: delete_company_rows_def neq_filter_def store0_def company1_def company2_def)


lemma py_int_abc: "py_int 4300 ''abc'' = None"
  by (simp add: py_int_def py_strip_def is_space_def digit_val_def Let_def)

lemma py_int_1p5: "py_int 4300 ''1.5'' = None"
  by (simp add: py_int_def py_strip_def is_space_def digit_val_def Let_def)

lemma py_int_0: "py_int 4300 ''0'' = Some 0"
  by (simp add: py_int_def py_strip_def is_space_def digit_val_def Let_def)

lemma py_int_m5: "py_int 4300 ''-5'' = Some (- 5)"
  by (simp add: py_int_def py_strip_def is_space_def digit_val_def Let_def)


lemma validate_fields_errors:
  assumes indep: "\<And>n vals v. vs n vals v = vs n [] v"
  shows "snd (validate_fields x vs data flds vals errors) =
           errors @ concat (map (\<lambda>fld.
              case map_of data (fname fld) of
                None \<Rightarrow> if frequired fld then [(fname fld, ''field required'')] else []
              | Some v \<Rightarrow> (case validate_field x vs [] fld v of Inl m \<Rightarrow> [(fname fld, m)] | Inr w \<Rightarrow> [])) flds)"
proof (induction flds arbitrary: vals errors)
  case Nil
  then show ?case by simp
next
  case (Cons fld flds)
  have vf: "validate_field x vs vals fld v = validate_field x vs [] fld v" for v
    using indep [of "fname fld" vals] by (auto simp add: validate_field_def split: sum.splits)
  show ?case
    by (simp add: Cons.IH vf split: option.splits sum.splits)
qed

lemma errors_name_offending:
  "map fst (concat (map (\<lambda>fld.
              case map_of data (fname fld) of
                None \<Rightarrow> if frequired fld then [(fname fld, ''field required'')] else []
              | Some v \<Rightarrow> (case validate_field x vs [] fld v of Inl m \<Rightarrow> [(fname fld, m)] | Inr w \<Rightarrow> [])) flds))
   = map fname (filter (\<lambda>fld. case map_of data (fname fld) of
                                 None \<Rightarrow> frequired fld
                               | Some v \<Rightarrow> isl (validate_field x vs [] fld v)) flds)"
  by (induction flds) (auto split: option.splits sum.splits)

lemma company_validators_indep: "company_validators x n vals v = company_validators x n [] v"
  by (simp add: company_validators_def)

lemma validate_model_Inl:
  "validate_model x vs flds data = Inl errors
     \<Longrightarrow> errors = snd (validate_fields x vs data flds [] []) \<and> errors \<noteq> []"
  by (auto simp add: validate_model_def split: prod.splits if_splits)


lemma validate_company_two_missing:
  "validate_model ext0 (company_validators ext0) CompanyCreate_fields
     [(''company_name'', PStr ''Acme''), (''company_address'', PStr ''1 Main St'')]
   = Inl [(''company_email'', ''field required''), (''company_phone'', ''field required'')]"
  by (simp add: validate_model_def CompanyCreate_fields_def validate_field_def type_validator_def
        str_validator_def length_validator_def company_validators_def)


lemma add_company_service_invalid:
  assumes "json req \<noteq> []" and "validate_model x no_validators ServiceCreate_fields (json req) = Inl errors"
  shows "add_company_service x cid req st = (Inl (invalid_data errors), st)"
  using assms by (simp add: add_company_service_def except_Exception_app is_OSConstructionError_simps)

lemma add_company_service_missing_parent:
  assumes "json req \<noteq> []" and "validate_model x no_validators ServiceCreate_fields (json req) = Inr d"
    and "eq_filter ''id'' (PStr cid) (companies st) = []"
  shows "add_company_service x cid req st = (Inl (not_found cid), st)"
  using assms
  by (simp add: add_company_service_def select_columns_empty except_Exception_app is_OSConstructionError_simps)

lemma add_company_project_invalid:
  assumes "json req \<noteq> []" and "validate_model x project_validators ProjectCreate_fields (json req) = Inl errors"
  shows "add_company_project x cid req st = (Inl (invalid_data errors), st)"
  using assms by (simp add: add_company_project_def except_Exception_app is_OSConstructionError_simps)

lemma add_company_project_missing_parent:
  assumes "json req \<noteq> []" and "validate_model x project_validators ProjectCreate_fields (json req) = Inr d"
    and "eq_filter ''id'' (PStr cid) (companies st) = []"
  shows "add_company_project x cid req st = (Inl (not_found cid), st)"
  using assms
  by (simp add: add_company_project_def select_columns_empty except_Exception_app is_OSConstructionError_simps)

lemma add_company_employee_invalid:
  assumes "json req \<noteq> []" and "validate_model x no_validators EmployeeCreate_fields (json req) = Inl errors"
  shows "add_company_employee x cid req st = (Inl (invalid_data errors), st)"
  using assms by (simp add: add_company_employee_def except_Exception_app is_OSConstructionError_simps)

lemma add_company_employee_missing_parent:
  assumes "json req \<noteq> []" and "validate_model x no_validators EmployeeCreate_fields (json req) = Inr d"
    and "eq_filter ''id'' (PStr cid) (companies st) = []"
  shows "add_company_employee x cid req st = (Inl (not_found cid), st)"
  using assms
  by (simp add: add_company_employee_def select_columns_empty except_Exception_app is_OSConstructionError_simps)

lemma add_company_empty_payload:
  assumes "json req = []"
  shows "add_company_service x cid req st = (Inl (ValidationError ''No data provided''), st)"
    and "add_company_project x cid req st = (Inl (ValidationError ''No data provided''), st)"
    and "add_company_employee x cid req st = (Inl (ValidationError ''No data provided''), st)"
  using assms
  by (simp_all add: add_company_service_def add_company_project_def add_company_employee_def
        except_Exception_app is_OSConstructionError_simps)

lemma flask_invalid_data:
  "flask (Inl (invalid_data errors), st)
     = ((JsonError ''Validation Error''
           (''Invalid data: '' @ py_join ''; '' (map (\<lambda>e. fst e @ '': '' @ snd e) errors)), 400), st)"
  by (simp add: invalid_data_def flask_validation)


lemma validate_service_missing_name:
  "validate_model ext0 no_validators ServiceCreate_fields [(''description'', PStr ''x'')]
     = Inl [(''service_name'', ''field required'')]"
  by (simp add: validate_model_def ServiceCreate_fields_def validate_field_def type_validator_def
        str_validator_def length_validator_def no_validators_def)

lemma validate_service_ok:
  "validate_model ext0 no_validators ServiceCreate_fields [(''service_name'', PStr ''Repairs'')]
     = Inr [(''service_name'', PStr ''Repairs''), (''description'', PNone), (''is_free'', PBool True),
            (''eligibility_criteria'', PNone)]"
  by (simp add: validate_model_def ServiceCreate_fields_def validate_field_def type_validator_def
        str_validator_def length_validator_def no_validators_def)

lemma eq_filter_c7_store0: "eq_filter ''id'' (PStr ''c7'') (companies store0) = []"
  by (simp add: companies_store0 eq_filter_def company1_def company2_def)


lemma map_of_merge:
  "map_of (AList.merge r d) k = (case map_of d k of None \<Rightarrow> map_of r k | Some v \<Rightarrow> Some v)"
  by (simp add: AList.merge_conv' map_add_def)

lemma validate_fields_provenance:
  assumes none: "\<And>n vals w. vs n vals PNone = Inr w \<Longrightarrow> w = PNone"
    and dflt: "\<forall>fld \<in> set flds. fdefault fld = PNone"
    and run: "validate_fields x vs data flds vals errors = (vals', errors')"
    and mem: "(k, v) \<in> set vals'" and nn: "v \<noteq> PNone"
  shows "(k, v) \<in> set vals \<or> (\<exists>v0. map_of data k = Some v0 \<and> v0 \<noteq> PNone)"
  using dflt run
proof (induction flds arbitrary: vals errors)
  case Nil
  then show ?case using mem by simp
next
  case (Cons fld flds)
  have d: "\<forall>fld \<in> set flds. fdefault fld = PNone" and d0: "fdefault fld = PNone"
    using Cons.prems(1) by simp_all
  show ?case
  proof (cases "map_of data (fname fld)")
    case None
    show ?thesis
    proof (cases "frequired fld")
      case True
      then have "validate_fields x vs data flds vals (errors @ [(fname fld, ''field required'')]) = (vals', errors')"
        using Cons.prems(2) None by simp
      then show ?thesis using Cons.IH [OF d] by blast
    next
      case False
      then have "validate_fields x vs data flds (vals @ [(fname fld, fdefault fld)]) errors = (vals', errors')"
        using Cons.prems(2) None by simp
      then have "(k, v) \<in> set (vals @ [(fname fld, fdefault fld)]) \<or> (\<exists>v0. map_of data k = Some v0 \<and> v0 \<noteq> PNone)"
        using Cons.IH [OF d] by blast
      then show ?thesis using d0 nn by auto
    qed
  next
    case (Some v0)
    show ?thesis
    proof (cases "validate_field x vs vals fld v0")
      case (Inl m)
      then have "validate_fields x vs data flds vals (errors @ [(fname fld, m)]) = (vals', errors')"
        using Cons.prems(2) Some by simp
      then show ?thesis using Cons.IH [OF d] by blast
    next
      case (Inr w)
      then have "validate_fields x vs data flds (vals @ [(fname fld, w)]) errors = (vals', errors')"
        using Cons.prems(2) Some by simp
      then have c: "(k, v) \<in> set (vals @ [(fname fld, w)]) \<or> (\<exists>v0. map_of data k = Some v0 \<and> v0 \<noteq> PNone)"
        using Cons.IH [OF d] by blast
      have "v0 = PNone \<Longrightarrow> w = PNone"
        using Inr none [of "fname fld" vals w] by (simp add: validate_field_def split: if_splits)
      then show ?thesis using c Some nn by auto
    qed
  qed
qed

lemma company_validators_none: "company_validators x n vals PNone = Inr w \<Longrightarrow> w = PNone"
  by (simp add: company_validators_def split: if_splits)

lemma CompanyUpdate_defaults: "\<forall>fld \<in> set CompanyUpdate_fields. fdefault fld = PNone"
  by (simp add: CompanyUpdate_fields_def)

lemma validate_model_Inr:
  "validate_model x vs flds data = Inr vals' \<Longrightarrow> validate_fields x vs data flds [] [] = (vals', [])"
  by (auto simp add: validate_model_def split: prod.splits if_splits)

lemma db_data_facts:
  fixes now :: string
  assumes v: "validate_model x (company_validators x) CompanyUpdate_fields data = Inr company_data"
  defines "db_data \<equiv> AList.update ''updated_at'' (PStr now) (filter (\<lambda>kv. snd kv \<noteq> PNone) company_data)"
  shows "map_of db_data ''updated_at'' = Some (PStr now)"
    and "map_of db_data k \<noteq> Some PNone"
    and "k \<noteq> ''updated_at'' \<Longrightarrow> map_of db_data k = Some w \<Longrightarrow> \<exists>v0. map_of data k = Some v0 \<and> v0 \<noteq> PNone"
proof -
  show "map_of db_data ''updated_at'' = Some (PStr now)"
    by (simp add: db_data_def AList.update_conv')
  have f: "map_of (filter (\<lambda>kv. snd kv \<noteq> PNone) company_data) k = Some w
            \<Longrightarrow> (k, w) \<in> set company_data \<and> w \<noteq> PNone" for w
    using map_of_SomeD [of "filter (\<lambda>kv. snd kv \<noteq> PNone) company_data" k w] by simp
  show "map_of db_data k \<noteq> Some PNone"
    using f [of PNone] by (auto simp add: db_data_def AList.update_conv')
  show "\<exists>v0. map_of data k = Some v0 \<and> v0 \<noteq> PNone" if "k \<noteq> ''updated_at''" and "map_of db_data k = Some w"
  proof -
    have "map_of (filter (\<lambda>kv. snd kv \<noteq> PNone) company_data) k = Some w"
      using that by (simp add: db_data_def AList.update_conv')
    then have "(k, w) \<in> set company_data" and "w \<noteq> PNone" using f by blast+
    then show ?thesis
      using validate_fields_provenance [where vs = "company_validators x" and vals = "[]",
              OF company_validators_none CompanyUpdate_defaults validate_model_Inr [OF v]]
      by auto
  qed
qed

lemma update_company_outcome:
  assumes "update_company x cid req st = (r, st')"
  shows "(st' = st \<and> (\<exists>e. r = Inl e))
       \<or> (\<exists>company_data resp.
            json req \<noteq> []
          \<and> validate_model x (company_validators x) CompanyUpdate_fields (json req) = Inr company_data
          \<and> eq_filter ''id'' (PStr cid) (companies st) \<noteq> []
          \<and> r = Inr resp
          \<and> st' = st\<lparr>companies :=
                 map (\<lambda>row. if map_of row ''id'' = Some (PStr cid)
                             then AList.merge row
                                    (AList.update ''updated_at'' (PStr (utcnow x))
                                       (filter (\<lambda>kv. snd kv \<noteq> PNone) company_data))
                             else row) (companies st)\<rparr>)"
proof (cases "json req = []")
  case True
  then show ?thesis using assms
    by (auto simp add: update_company_def except_Exception_app is_OSConstructionError_simps)
next
  case ne: False
  show ?thesis
  proof (cases "validate_model x (company_validators x) CompanyUpdate_fields (json req)")
    case (Inl errors)
    then show ?thesis using assms ne
      by (auto simp add: update_company_def except_Exception_app is_OSConstructionError_simps)
  next
    case (Inr company_data)
    show ?thesis
    proof (cases "eq_filter ''id'' (PStr cid) (companies st) = []")
      case True
      then show ?thesis using assms ne Inr
        by (auto simp add: update_company_def select_columns_empty except_Exception_app is_OSConstructionError_simps)
    next
      case False
      then obtain r0 rs where e: "eq_filter ''id'' (PStr cid) (companies st) = r0 # rs"
        by (cases "eq_filter ''id'' (PStr cid) (companies st)") auto
      have "update_company x cid req st =
              (Inr (JsonRow (AList.merge r0 (AList.update ''updated_at'' (PStr (utcnow x))
                                       (filter (\<lambda>kv. snd kv \<noteq> PNone) company_data))), 200),
               st\<lparr>companies :=
                 map (\<lambda>row. if map_of row ''id'' = Some (PStr cid)
                             then AList.merge row
                                    (AList.update ''updated_at'' (PStr (utcnow x))
                                       (filter (\<lambda>kv. snd kv \<noteq> PNone) company_data))
                             else row) (companies st)\<rparr>)"
        using ne Inr e
        by (simp add: update_company_def select_columns_empty update_rows_def except_Exception_app Let_def)
      then show ?thesis using assms ne Inr False by auto
    qed
  qed
qed

lemma validate_fields_all_none:
  assumes "\<forall>fld \<in> set flds. \<not> frequired fld \<and> fallow_none fld \<and> fdefault fld = PNone"
    and "\<And>n vals. vs n vals PNone = Inr PNone"
    and "\<forall>fld \<in> set flds. map_of data (fname fld) = None \<or> map_of data (fname fld) = Some PNone"
  shows "validate_fields x vs data flds vals errors = (vals @ map (\<lambda>fld. (fname fld, PNone)) flds, errors)"
  using assms(1,3)
proof (induction flds arbitrary: vals errors)
  case Nil
  then show ?case by simp
next
  case (Cons fld flds)
  then show ?case
    by (auto simp add: validate_field_def assms(2))
qed

lemma validate_fields_extends:
  "validate_fields x vs data flds vals errors = (vals', errors')
     \<Longrightarrow> \<exists>rest. vals' = vals @ rest"
proof (induction flds arbitrary: vals errors)
  case Nil
  then show ?case by simp
next
  case (Cons fld flds)
  have step: "\<exists>rest. vals' = vals @ rest"
    if h: "validate_fields x vs data flds (vals @ add) errs = (vals', errors')" for add errs
  proof -
    obtain rest where "vals' = (vals @ add) @ rest" using Cons.IH [OF h] by blast
    then have "vals' = vals @ (add @ rest)" by simp
    then show ?thesis by blast
  qed
  show ?case
  proof (cases "map_of data (fname fld)")
    case None
    show ?thesis
    proof (cases "frequired fld")
      case True
      then have "validate_fields x vs data flds (vals @ []) (errors @ [(fname fld, ''field required'')]) = (vals', errors')"
        using Cons.prems None by simp
      then show ?thesis by (rule step)
    next
      case False
      then have "validate_fields x vs data flds (vals @ [(fname fld, fdefault fld)]) errors = (vals', errors')"
        using Cons.prems None by simp
      then show ?thesis by (rule step)
    qed
  next
    case (Some v0)
    show ?thesis
    proof (cases "validate_field x vs vals fld v0")
      case (Inl m)
      then have "validate_fields x vs data flds (vals @ []) (errors @ [(fname fld, m)]) = (vals', errors')"
        using Cons.prems Some by simp
      then show ?thesis by (rule step)
    next
      case (Inr w)
      then have "validate_fields x vs data flds (vals @ [(fname fld, w)]) errors = (vals', errors')"
        using Cons.prems Some by simp
      then show ?thesis by (rule step)
    qed
  qed
qed

lemma map_of_append_fresh:
  "k \<notin> fst ` set vals \<Longrightarrow> map_of (vals @ (k, w) # rest) k = Some w"
  by (induction vals) auto

lemma validate_fields_value:
  assumes indep: "\<And>n vals u. vs n vals u = vs n [] u"
    and "distinct (map fname flds)" and "fld \<in> set flds"
    and "map_of data (fname fld) = Some v" and "validate_field x vs [] fld v = Inr w"
    and "fname fld \<notin> fst ` set vals"
    and "validate_fields x vs data flds vals errors = (vals', errors')"
  shows "map_of vals' (fname fld) = Some w"
  using assms(2,3,6,7)
proof (induction flds arbitrary: vals errors)
  case Nil
  then show ?case by simp
next
  case (Cons g flds)
  have vf: "validate_field x vs vals0 h u = validate_field x vs [] h u" for vals0 h u
    using indep [of "fname h" vals0] by (auto simp add: validate_field_def split: sum.splits)
  show ?case
  proof (cases "g = fld")
    case True
    then have "validate_fields x vs data flds (vals @ [(fname fld, w)]) errors = (vals', errors')"
      using Cons.prems(4) assms(4,5) by (simp add: vf [of vals])
    then obtain rest where "vals' = (vals @ [(fname fld, w)]) @ rest"
      using validate_fields_extends by blast
    then have "vals' = vals @ (fname fld, w) # rest" by simp
    then show ?thesis using map_of_append_fresh [OF Cons.prems(3)] by simp
  next
    case False
    then have in_rest: "fld \<in> set flds" and d: "distinct (map fname flds)" and ne: "fname g \<noteq> fname fld"
      using Cons.prems(1,2) by auto
    have fresh: "fname fld \<notin> fst ` set (vals @ [(fname g, u)])" for u
      using Cons.prems(3) ne by auto
    have same: "map_of vals' (fname fld) = Some w"
      if "validate_fields x vs data flds vals errs = (vals', errors')" for errs
      using Cons.IH [OF d in_rest Cons.prems(3) that] .
    have grown: "map_of vals' (fname fld) = Some w"
      if "validate_fields x vs data flds (vals @ [(fname g, u)]) errs = (vals', errors')" for u errs
      using Cons.IH [OF d in_rest fresh that] .
    show ?thesis
    proof (cases "map_of data (fname g)")
      case None
      show ?thesis
      proof (cases "frequired g")
        case True
        then have "validate_fields x vs data flds vals (errors @ [(fname g, ''field required'')]) = (vals', errors')"
          using Cons.prems(4) None by simp
        then show ?thesis by (rule same)
      next
        case False
        then have "validate_fields x vs data flds (vals @ [(fname g, fdefault g)]) errors = (vals', errors')"
          using Cons.prems(4) None by simp
        then show ?thesis by (rule grown)
      qed
    next
      case (Some v0)
      show ?thesis
      proof (cases "validate_field x vs vals g v0")
        case (Inl m)
        then have "validate_fields x vs data flds vals (errors @ [(fname g, m)]) = (vals', errors')"
          using Cons.prems(4) Some by simp
        then show ?thesis by (rule same)
      next
        case (Inr u)
        then have "validate_fields x vs data flds (vals @ [(fname g, u)]) errors = (vals', errors')"
          using Cons.prems(4) Some by simp
        then show ?thesis by (rule grown)
      qed
    qed
  qed
qed

lemma map_of_filter_keeps:
  "map_of al k = Some w \<Longrightarrow> P (k, w) \<Longrightarrow> map_of (filter P al) k = Some w"
  by (induction al) (auto split: if_splits)

lemma CompanyUpdate_names:
  "distinct (map fname CompanyUpdate_fields)"
  "''updated_at'' \<notin> fname ` set CompanyUpdate_fields"
  by (simp_all add: CompanyUpdate_fields_def)

lemma list_all2_map_same:
  "list_all2 P xs (map g xs) \<longleftrightarrow> (\<forall>y \<in> set xs. P y (g y))"
  by (simp add: list_all2_map2 list_all2_same)

lemma update_company_written:
  assumes "json req \<noteq> []"
    and "validate_model x (company_validators x) CompanyUpdate_fields (json req) = Inr company_data"
    and "eq_filter ''id'' (PStr cid) (companies st) \<noteq> []"
  shows "\<exists>row. update_company x cid req st =
           (Inr (JsonRow row, 200),
            st\<lparr>companies :=
                 map (\<lambda>row. if map_of row ''id'' = Some (PStr cid)
                             then AList.merge row
                                    (AList.update ''updated_at'' (PStr (utcnow x))
                                       (filter (\<lambda>kv. snd kv \<noteq> PNone) company_data))
                             else row) (companies st)\<rparr>)"
proof -
  obtain r0 rs where e: "eq_filter ''id'' (PStr cid) (companies st) = r0 # rs"
    using assms(3) by (cases "eq_filter ''id'' (PStr cid) (companies st)") auto
  show ?thesis
    using assms(1,2) e
    by (simp add: update_company_def select_columns_empty update_rows_def except_Exception_app Let_def)
qed

lemma company_validators_keeps_none: "company_validators x n vals PNone = Inr PNone"
  by (simp add: company_validators_def)

lemma CompanyUpdate_all_optional:
  "\<forall>fld \<in> set CompanyUpdate_fields. \<not> frequired fld \<and> fallow_none fld \<and> fdefault fld = PNone"
  by (simp add: CompanyUpdate_fields_def)

lemma validate_update_nothing_usable:
  assumes "\<forall>kv \<in> set data. snd kv = PNone \<or> fst kv \<notin> fname ` set CompanyUpdate_fields"
  shows "validate_model x (company_validators x) CompanyUpdate_fields data
           = Inr (map (\<lambda>fld. (fname fld, PNone)) CompanyUpdate_fields)"
proof -
  have "map_of data (fname fld) = None \<or> map_of data (fname fld) = Some PNone"
    if m: "fld \<in> set CompanyUpdate_fields" for fld
  proof (cases "map_of data (fname fld)")
    case None
    then show ?thesis by simp
  next
    case (Some u)
    then have "(fname fld, u) \<in> set data" by (rule map_of_SomeD)
    then have "u = PNone" using assms m by fastforce
    then show ?thesis using Some by simp
  qed
  then have "validate_fields x (company_validators x) data CompanyUpdate_fields [] []
               = ([] @ map (\<lambda>fld. (fname fld, PNone)) CompanyUpdate_fields, [])"
    by (intro validate_fields_all_none CompanyUpdate_all_optional company_validators_keeps_none) blast
  then show ?thesis by (simp add: validate_model_def)
qed

lemma merge_single: "AList.merge row [(k, w)] = AList.update k w row"
  by (simp add: AList.merge_def)

lemma validate_update_website:
  "validate_model ext0 (company_validators ext0) CompanyUpdate_fields [(''website'', PStr ''b.org'')]
     = Inr [(''company_name'', PNone), (''company_address'', PNone), (''company_email'', PNone),
            (''company_phone'', PNone), (''website'', PStr ''b.org''), (''description'', PNone),
            (''founded_year'', PNone), (''is_verified'', PNone)]"
  by (simp add: validate_model_def CompanyUpdate_fields_def validate_field_def type_validator_def
        str_validator_def length_validator_def company_validators_def)

lemma update_website_store0:
  "update_company ext0 ''c1'' (request0\<lparr>json := [(''website'', PStr ''b.org'')]\<rparr>) store0
     = (Inr (JsonRow [(''id'', PStr ''c1''), (''company_name'', PStr ''Acme''), (''website'', PStr ''b.org''),
                      (''is_verified'', PBool True), (''updated_at'', PStr ''2024-05-01'')], 200),
        store0\<lparr>companies :=
          [[(''id'', PStr ''c1''), (''company_name'', PStr ''Acme''), (''website'', PStr ''b.org''),
            (''is_verified'', PBool True), (''updated_at'', PStr ''2024-05-01'')],
           company2]\<rparr>)"
proof -
  have u: "utcnow ext0 = ''2024-05-01''" by (simp add: ext0_def)
  have m: "AList.update ''website'' (PStr ''b.org'') (AList.update ''updated_at'' (PStr ''2024-05-01'') company1)
             = [(''id'', PStr ''c1''), (''company_name'', PStr ''Acme''), (''website'', PStr ''b.org''),
                (''is_verified'', PBool True), (''updated_at'', PStr ''2024-05-01'')]"
    by (simp add: company1_def)
  have e: "eq_filter ''id'' (PStr ''c1'') [company1, company2] = [company1]"
    by (simp add: eq_filter_def company1_def company2_def)
  have i: "map_of company1 ''id'' = Some (PStr ''c1'')" "map_of company2 ''id'' \<noteq> Some (PStr ''c1'')"
    by (simp_all add: company1_def company2_def)
  show ?thesis
    by (simp add: update_company_def request0_def validate_update_website u select_columns_empty
          e update_rows_def companies_store0 i m except_Exception_app Let_def)
qed

lemma update_null_website_store0:
  "update_company ext0 ''c1'' (request0\<lparr>json := [(''website'', PNone)]\<rparr>) store0
     = (Inr (JsonRow [(''id'', PStr ''c1''), (''company_name'', PStr ''Acme''), (''website'', PStr ''a.org''),
                      (''is_verified'', PBool True), (''updated_at'', PStr ''2024-05-01'')], 200),
        store0\<lparr>companies :=
          [[(''id'', PStr ''c1''), (''company_name'', PStr ''Acme''), (''website'', PStr ''a.org''),
            (''is_verified'', PBool True), (''updated_at'', PStr ''2024-05-01'')],
           company2]\<rparr>)"
proof -
  have v: "validate_model ext0 (company_validators ext0) CompanyUpdate_fields [(''website'', PNone)]
     = Inr [(''company_name'', PNone), (''company_address'', PNone), (''company_email'', PNone),
            (''company_phone'', PNone), (''website'', PNone), (''description'', PNone),
            (''founded_year'', PNone), (''is_verified'', PNone)]"
    by (simp add: validate_model_def CompanyUpdate_fields_def validate_field_def company_validators_def)
  have u: "utcnow ext0 = ''2024-05-01''" by (simp add: ext0_def)
  have m: "AList.update ''updated_at'' (PStr ''2024-05-01'') company1
             = [(''id'', PStr ''c1''), (''company_name'', PStr ''Acme''), (''website'', PStr ''a.org''),
                (''is_verified'', PBool True), (''updated_at'', PStr ''2024-05-01'')]"
    by (simp add: company1_def)
  have e: "eq_filter ''id'' (PStr ''c1'') [company1, company2] = [company1]"
    by (simp add: eq_filter_def company1_def company2_def)
  have i: "map_of company1 ''id'' = Some (PStr ''c1'')" "map_of company2 ''id'' \<noteq> Some (PStr ''c1'')"
    by (simp_all add: company1_def company2_def)
  show ?thesis
    by (simp add: update_company_def request0_def v u select_columns_empty
          e update_rows_def companies_store0 i m except_Exception_app Let_def)
qed

section \<open>Child resources: validation and the parent check\<close>

text \<open>
  What the three \<^verbatim>\<open>POST\<close> handlers for child resources (service, project, employee) do:
  they validate the payload first and look for the parent company afterwards. An
  empty payload, or one that fails the schema, is answered with the
  \<^verbatim>\<open>ValidationError\<close> response (400) whether or not the company exists; only a non-empty
  payload that passes validation reaches the existence check, and then a missing company
  is answered with the \<^verbatim>\<open>ResourceNotFoundError\<close> response (404). The store is left as
  it was in each case.
\<close>

theorem child_post_validates_first:
  "(json req \<noteq> [] \<and> validate_model x no_validators ServiceCreate_fields (json req) = Inl errors
      \<longrightarrow> flask (add_company_service x cid req st)
            = ((JsonError ''Validation Error''
                  (''Invalid data: '' @ py_join ''; '' (map (\<lambda>e. fst e @ '': '' @ snd e) errors)), 400), st))
   \<and> (json req \<noteq> [] \<and> validate_model x no_validators ServiceCreate_fields (json req) = Inr d
        \<and> eq_filter ''id'' (PStr cid) (companies st) = []
      \<longrightarrow> flask (add_company_service x cid req st)
            = ((JsonError ''Not Found'' (''Company with ID '' @ cid @ '' not found''), 404), st))
   \<and> (json req \<noteq> [] \<and> validate_model x project_validators ProjectCreate_fields (json req) = Inl errors
      \<longrightarrow> flask (add_company_project x cid req st)
            = ((JsonError ''Validation Error''
                  (''Invalid data: '' @ py_join ''; '' (map (\<lambda>e. fst e @ '': '' @ snd e) errors)), 400), st))
   \<and> (json req \<noteq> [] \<and> validate_model x project_validators ProjectCreate_fields (json req) = Inr d
        \<and> eq_filter ''id'' (PStr cid) (companies st) = []
      \<longrightarrow> flask (add_company_project x cid req st)
            = ((JsonError ''Not Found'' (''Company with ID '' @ cid @ '' not found''), 404), st))
   \<and> (json req \<noteq> [] \<and> validate_model x no_validators EmployeeCreate_fields (json req) = Inl errors
      \<longrightarrow> flask (add_company_employee x cid req st)
            = ((JsonError ''Validation Error''
                  (''Invalid data: '' @ py_join ''; '' (map (\<lambda>e. fst e @ '': '' @ snd e) errors)), 400), st))
   \<and> (json req \<noteq> [] \<and> validate_model x no_validators EmployeeCreate_fields (json req) = Inr d
        \<and> eq_filter ''id'' (PStr cid) (companies st) = []
      \<longrightarrow> flask (add_company_employee x cid req st)
            = ((JsonError ''Not Found'' (''Company with ID '' @ cid @ '' not found''), 404), st))
   \<and> (json req = []
      \<longrightarrow> flask (add_company_service x cid req st) = ((JsonError ''Validation Error'' ''No data provided'', 400), st)
        \<and> flask (add_company_project x cid req st) = ((JsonError ''Validation Error'' ''No data provided'', 400), st)
        \<and> flask (add_company_employee x cid req st) = ((JsonError ''Validation Error'' ''No data provided'', 400), st))"
proof (intro conjI impI)
  assume "json req \<noteq> [] \<and> validate_model x no_validators ServiceCreate_fields (json req) = Inl errors"
  then have "add_company_service x cid req st = (Inl (invalid_data errors), st)"
    by (elim conjE) (rule add_company_service_invalid)
  then show "flask (add_company_service x cid req st)
            = ((JsonError ''Validation Error''
                  (''Invalid data: '' @ py_join ''; '' (map (\<lambda>e. fst e @ '': '' @ snd e) errors)), 400), st)"
    by (simp only: flask_invalid_data)
next
  assume "json req \<noteq> [] \<and> validate_model x no_validators ServiceCreate_fields (json req) = Inr d
        \<and> eq_filter ''id'' (PStr cid) (companies st) = []"
  then have "add_company_service x cid req st = (Inl (not_found cid), st)"
    by (elim conjE) (rule add_company_service_missing_parent)
  then show "flask (add_company_service x cid req st)
            = ((JsonError ''Not Found'' (''Company with ID '' @ cid @ '' not found''), 404), st)"
    by (simp only: flask_not_found)
next
  assume "json req \<noteq> [] \<and> validate_model x project_validators ProjectCreate_fields (json req) = Inl errors"
  then have "add_company_project x cid req st = (Inl (invalid_data errors), st)"
    by (elim conjE) (rule add_company_project_invalid)
  then show "flask (add_company_project x cid req st)
            = ((JsonError ''Validation Error''
                  (''Invalid data: '' @ py_join ''; '' (map (\<lambda>e. fst e @ '': '' @ snd e) errors)), 400), st)"
    by (simp only: flask_invalid_data)
next
  assume "json req \<noteq> [] \<and> validate_model x project_validators ProjectCreate_fields (json req) = Inr d
        \<and> eq_filter ''id'' (PStr cid) (companies st) = []"
  then have "add_company_project x cid req st = (Inl (not_found cid), st)"
    by (elim conjE) (rule add_company_project_missing_parent)
  then show "flask (add_company_project x cid req st)
            = ((JsonError ''Not Found'' (''Company with ID '' @ cid @ '' not found''), 404), st)"
    by (simp only: flask_not_found)
next
  assume "json req \<noteq> [] \<and> validate_model x no_validators EmployeeCreate_fields (json req) = Inl errors"
  then have "add_company_employee x cid req st = (Inl (invalid_data errors), st)"
    by (elim conjE) (rule add_company_employee_invalid)
  then show "flask (add_company_employee x cid req st)
            = ((JsonError ''Validation Error''
                  (''Invalid data: '' @ py_join ''; '' (map (\<lambda>e. fst e @ '': '' @ snd e) errors)), 400), st)"
    by (simp only: flask_invalid_data)
next
  assume "json req \<noteq> [] \<and> validate_model x no_validators EmployeeCreate_fields (json req) = Inr d
        \<and> eq_filter ''id'' (PStr cid) (companies st) = []"
  then have "add_company_employee x cid req st = (Inl (not_found cid), st)"
    by (elim conjE) (rule add_company_employee_missing_parent)
  then show "flask (add_company_employee x cid req st)
            = ((JsonError ''Not Found'' (''Company with ID '' @ cid @ '' not found''), 404), st)"
    by (simp only: flask_not_found)
next
  assume e: "json req = []"
  show "flask (add_company_service x cid req st) = ((JsonError ''Validation Error'' ''No data provided'', 400), st)"
    by (simp only: add_company_empty_payload(1) [OF e] flask_validation)
  show "flask (add_company_project x cid req st) = ((JsonError ''Validation Error'' ''No data provided'', 400), st)"
    by (simp only: add_company_empty_payload(2) [OF e] flask_validation)
  show "flask (add_company_employee x cid req st) = ((JsonError ''Validation Error'' ''No data provided'', 400), st)"
    by (simp only: add_company_empty_payload(3) [OF e] flask_validation)
qed

text \<open>
  On the sample store, where no company has the id \<^verbatim>\<open>c7\<close>, a payload without
  \<^verbatim>\<open>service_name\<close> gives 400, a valid payload gives 404 and an empty one 400.
\<close>

theorem child_post_validates_first_witness:
  "flask (add_company_service ext0 ''c7'' (request0\<lparr>json := [(''description'', PStr ''x'')]\<rparr>) store0)
     = ((JsonError ''Validation Error'' ''Invalid data: service_name: field required'', 400), store0)
   \<and> flask (add_company_service ext0 ''c7'' (request0\<lparr>json := [(''service_name'', PStr ''Repairs'')]\<rparr>) store0)
     = ((JsonError ''Not Found'' ''Company with ID c7 not found'', 404), store0)
   \<and> flask (add_company_service ext0 ''c7'' request0 store0)
     = ((JsonError ''Validation Error'' ''No data provided'', 400), store0)"
proof -
  have 1: "json (request0\<lparr>json := [(''description'', PStr ''x'')]\<rparr>) \<noteq> []
           \<and> validate_model ext0 no_validators ServiceCreate_fields
                (json (request0\<lparr>json := [(''description'', PStr ''x'')]\<rparr>))
             = Inl [(''service_name'', ''field required'')]"
    by (simp add: validate_service_missing_name)
  have 2: "json (request0\<lparr>json := [(''service_name'', PStr ''Repairs'')]\<rparr>) \<noteq> []
           \<and> validate_model ext0 no_validators ServiceCreate_fields
                (json (request0\<lparr>json := [(''service_name'', PStr ''Repairs'')]\<rparr>))
             = Inr [(''service_name'', PStr ''Repairs''), (''description'', PNone),
                    (''is_free'', PBool True), (''eligibility_criteria'', PNone)]
           \<and> eq_filter ''id'' (PStr ''c7'') (companies store0) = []"
    by (simp add: validate_service_ok eq_filter_c7_store0)
  have 3: "json request0 = []" by (simp add: request0_def)
  have m: "''Invalid data: '' @ py_join ''; '' (map (\<lambda>e. fst e @ '': '' @ snd e) [(''service_name'', ''field required'')])
             = ''Invalid data: service_name: field required''"
    by simp
  have n: "''Company with ID '' @ ''c7'' @ '' not found'' = ''Company with ID c7 not found''" by simp
  show ?thesis
    using child_post_validates_first
            [where req = "request0\<lparr>json := [(''description'', PStr ''x'')]\<rparr>" and x = ext0
               and errors = "[(''service_name'', ''field required'')]" and cid = "''c7''" and st = store0,
             THEN conjunct1, rule_format, OF 1]
          child_post_validates_first
            [where req = "request0\<lparr>json := [(''service_name'', PStr ''Repairs'')]\<rparr>" and x = ext0
               and cid = "''c7''" and st = store0
               and d = "[(''service_name'', PStr ''Repairs''), (''description'', PNone),
                         (''is_free'', PBool True), (''eligibility_criteria'', PNone)]",
             THEN conjunct2, THEN conjunct1, rule_format, OF 2]
          child_post_validates_first
            [where req = request0 and x = ext0 and cid = "''c7''" and st = store0,
             THEN conjunct2, THEN conjunct2, THEN conjunct2, THEN conjunct2, THEN conjunct2, THEN conjunct2,
             rule_format, OF 3, THEN conjunct1]
    unfolding m n by blast
qed

lemma validate_project_missing_name:
  "validate_model ext0 project_validators ProjectCreate_fields [(''location'', PStr ''x'')]
     = Inl [(''project_name'', ''field required'')]"
  by (simp add: validate_model_def ProjectCreate_fields_def validate_field_def type_validator_def
        str_validator_def length_validator_def project_validators_def)

lemma validate_employee_missing_name:
  "validate_model ext0 no_validators EmployeeCreate_fields [(''position'', PStr ''x'')]
     = Inl [(''full_name'', ''field required'')]"
  by (simp add: validate_model_def EmployeeCreate_fields_def validate_field_def type_validator_def
        str_validator_def length_validator_def no_validators_def)

text \<open>
  C1. The specification asks for the parent check before the validation of the payload, so
  that a child \<^verbatim>\<open>POST\<close> under a company that does not exist gives 404 whatever the
  payload is. On the sample store no company has the id \<^verbatim>\<open>c7\<close>; a payload that lacks
  the required name is sent to each of the three handlers under that id, and each answers
  with the validation error and status 400, not with 404: the handlers of
  \<^verbatim>\<open>app_improved.py\<close> call the pydantic model before they look for the company. The
  methods \<^verbatim>\<open>add_service\<close>, \<^verbatim>\<open>add_project\<close> and \<^verbatim>\<open>add_employee\<close> of
  \<^verbatim>\<open>os_construction_manager.py\<close> do the two steps in the other order.
\<close>

theorem child_post_invalid_payload_missing_parent:
  "eq_filter ''id'' (PStr ''c7'') (companies store0) = []
   \<and> flask (add_company_service ext0 ''c7'' (request0\<lparr>json := [(''description'', PStr ''x'')]\<rparr>) store0)
     = ((JsonError ''Validation Error'' ''Invalid data: service_name: field required'', 400), store0)
   \<and> flask (add_company_project ext0 ''c7'' (request0\<lparr>json := [(''location'', PStr ''x'')]\<rparr>) store0)
     = ((JsonError ''Validation Error'' ''Invalid data: project_name: field required'', 400), store0)
   \<and> flask (add_company_employee ext0 ''c7'' (request0\<lparr>json := [(''position'', PStr ''x'')]\<rparr>) store0)
     = ((JsonError ''Validation Error'' ''Invalid data: full_name: field required'', 400), store0)"
proof -
  have s: "flask (add_company_service ext0 ''c7'' (request0\<lparr>json := [(''description'', PStr ''x'')]\<rparr>) store0)
     = ((JsonError ''Validation Error'' ''Invalid data: service_name: field required'', 400), store0)"
    by (simp add: add_company_service_def request0_def validate_service_missing_name
          invalid_data_def except_Exception_app is_OSConstructionError_simps flask_validation)
  have p: "flask (add_company_project ext0 ''c7'' (request0\<lparr>json := [(''location'', PStr ''x'')]\<rparr>) store0)
     = ((JsonError ''Validation Error'' ''Invalid data: project_name: field required'', 400), store0)"
    by (simp add: add_company_project_def request0_def validate_project_missing_name
          invalid_data_def except_Exception_app is_OSConstructionError_simps flask_validation)
  have e: "flask (add_company_employee ext0 ''c7'' (request0\<lparr>json := [(''position'', PStr ''x'')]\<rparr>) store0)
     = ((JsonError ''Validation Error'' ''Invalid data: full_name: field required'', 400), store0)"
    by (simp add: add_company_employee_def request0_def validate_employee_missing_name
          invalid_data_def except_Exception_app is_OSConstructionError_simps flask_validation)
  show ?thesis using eq_filter_c7_store0 s p e by blast
qed

section \<open>The message of a validation failure\<close>

lemma create_company_invalid:
  assumes "json req \<noteq> []"
    and "validate_model x (company_validators x) CompanyCreate_fields (json req) = Inl errors"
  shows "create_company x req st
           = (Inl (ValidationError
                (''Invalid data: '' @ py_join ''; '' (map (\<lambda>e. fst e @ '': '' @ snd e) errors))), st)
         \<and> flask (create_company x req st)
           = ((JsonError ''Validation Error''
                (''Invalid data: '' @ py_join ''; '' (map (\<lambda>e. fst e @ '': '' @ snd e) errors)), 400), st)
         \<and> errors \<noteq> []
         \<and> map fst errors
           = map fname (filter (\<lambda>fld. case map_of (json req) (fname fld) of
                                         None \<Rightarrow> frequired fld
                                       | Some v \<Rightarrow> isl (validate_field x (company_validators x) [] fld v))
                          CompanyCreate_fields)"
proof -
  have c: "create_company x req st
           = (Inl (ValidationError
                (''Invalid data: '' @ py_join ''; '' (map (\<lambda>e. fst e @ '': '' @ snd e) errors))), st)"
    using assms
    by (simp add: create_company_def except_Exception_app is_OSConstructionError_simps)
       (simp add: invalid_data_def)
  have e: "errors = snd (validate_fields x (company_validators x) (json req) CompanyCreate_fields [] [])"
    by (rule validate_model_Inl [OF assms(2), THEN conjunct1])
  have ne: "errors \<noteq> []"
    by (rule validate_model_Inl [OF assms(2), THEN conjunct2])
  have "map fst errors
           = map fname (filter (\<lambda>fld. case map_of (json req) (fname fld) of
                                         None \<Rightarrow> frequired fld
                                       | Some v \<Rightarrow> isl (validate_field x (company_validators x) [] fld v))
                          CompanyCreate_fields)"
    unfolding e
    by (simp only: validate_fields_errors [where vs = "company_validators x", OF company_validators_indep]
          errors_name_offending append_Nil)
  then show ?thesis using c ne by (simp only: flask_validation) simp
qed

lemma create_company_empty_payload:
  assumes "json req = []"
  shows "create_company x req st = (Inl (ValidationError ''No data provided''), st)"
  using assms by (simp add: create_company_def except_Exception_app is_OSConstructionError_simps)

text \<open>
  C2, as amended. When a non-empty payload of \<^verbatim>\<open>create_company\<close> fails validation, the
  \<^verbatim>\<open>ValidationError\<close> carries one string: \<^verbatim>\<open>Invalid data: \<close> followed by the entries
  \<^verbatim>\<open>field: message\<close> joined with \<^verbatim>\<open>; \<close>. The entries name exactly the offending fields
  of the schema (a required field that is missing, or a present field whose value is
  refused), each once and in declaration order; the response is 400 with that string as
  its message. An empty payload is not validated at all: it is answered with the one
  string \<^verbatim>\<open>No data provided\<close>, which names no field.
\<close>

theorem create_company_error_message:
  "(json req \<noteq> []
      \<and> validate_model x (company_validators x) CompanyCreate_fields (json req) = Inl errors
    \<longrightarrow> create_company x req st
           = (Inl (ValidationError
                (''Invalid data: '' @ py_join ''; '' (map (\<lambda>e. fst e @ '': '' @ snd e) errors))), st)
         \<and> flask (create_company x req st)
           = ((JsonError ''Validation Error''
                (''Invalid data: '' @ py_join ''; '' (map (\<lambda>e. fst e @ '': '' @ snd e) errors)), 400), st)
         \<and> errors \<noteq> []
         \<and> map fst errors
           = map fname (filter (\<lambda>fld. case map_of (json req) (fname fld) of
                                         None \<Rightarrow> frequired fld
                                       | Some v \<Rightarrow> isl (validate_field x (company_validators x) [] fld v))
                          CompanyCreate_fields))
   \<and> (json req = []
    \<longrightarrow> create_company x req st = (Inl (ValidationError ''No data provided''), st)
         \<and> flask (create_company x req st)
           = ((JsonError ''Validation Error'' ''No data provided'', 400), st))"
proof -
  have invalid: "create_company x req st
           = (Inl (ValidationError
                (''Invalid data: '' @ py_join ''; '' (map (\<lambda>e. fst e @ '': '' @ snd e) errors))), st)
         \<and> flask (create_company x req st)
           = ((JsonError ''Validation Error''
                (''Invalid data: '' @ py_join ''; '' (map (\<lambda>e. fst e @ '': '' @ snd e) errors)), 400), st)
         \<and> errors \<noteq> []
         \<and> map fst errors
           = map fname (filter (\<lambda>fld. case map_of (json req) (fname fld) of
                                         None \<Rightarrow> frequired fld
                                       | Some v \<Rightarrow> isl (validate_field x (company_validators x) [] fld v))
                          CompanyCreate_fields)"
    if h: "json req \<noteq> []
      \<and> validate_model x (company_validators x) CompanyCreate_fields (json req) = Inl errors"
    using h by (elim conjE) (rule create_company_invalid)
  have empty: "create_company x req st = (Inl (ValidationError ''No data provided''), st)
         \<and> flask (create_company x req st)
           = ((JsonError ''Validation Error'' ''No data provided'', 400), st)"
    if e: "json req = []"
  proof -
    have c: "create_company x req st = (Inl (ValidationError ''No data provided''), st)"
      by (rule create_company_empty_payload [OF e])
    then have "flask (create_company x req st)
           = ((JsonError ''Validation Error'' ''No data provided'', 400), st)"
      by (simp only: flask_validation)
    then show ?thesis using c by (rule conjI [rotated])
  qed
  show ?thesis by (rule conjI [OF impI [OF invalid] impI [OF empty]])
qed

text \<open>
  Witness for C2: a payload with two missing required fields, and the empty payload.
\<close>

theorem create_company_error_message_witness:
  "create_company ext0
        (request0\<lparr>json := [(''company_name'', PStr ''Acme''), (''company_address'', PStr ''1 Main St'')]\<rparr>) store0
      = (Inl (ValidationError ''Invalid data: company_email: field required; company_phone: field required''),
         store0)
   \<and> create_company ext0 request0 store0 = (Inl (ValidationError ''No data provided''), store0)"
proof -
  have h: "json (request0\<lparr>json := [(''company_name'', PStr ''Acme''), (''company_address'', PStr ''1 Main St'')]\<rparr>) \<noteq> []
           \<and> validate_model ext0 (company_validators ext0) CompanyCreate_fields
                (json (request0\<lparr>json := [(''company_name'', PStr ''Acme''), (''company_address'', PStr ''1 Main St'')]\<rparr>))
             = Inl [(''company_email'', ''field required''), (''company_phone'', ''field required'')]"
    by (simp add: validate_company_two_missing)
  have e: "json request0 = []" by (simp add: request0_def)
  have m: "''Invalid data: '' @ py_join ''; ''
             (map (\<lambda>e. fst e @ '': '' @ snd e)
                [(''company_email'', ''field required''), (''company_phone'', ''field required'')])
           = ''Invalid data: company_email: field required; company_phone: field required''"
    by simp
  show ?thesis
    using create_company_error_message
            [where req = "request0\<lparr>json := [(''company_name'', PStr ''Acme''), (''company_address'', PStr ''1 Main St'')]\<rparr>"
               and x = ext0 and st = store0
               and errors = "[(''company_email'', ''field required''), (''company_phone'', ''field required'')]",
             THEN conjunct1, rule_format, OF h, THEN conjunct1]
          create_company_error_message
            [where req = request0 and x = ext0 and st = store0,
             THEN conjunct2, rule_format, OF e, THEN conjunct1]
    unfolding m by blast
qed

text \<open>
  Counterexample to C2 as stated: two fields fail, and what the client receives is one
  string, not a list of field and message pairs.
\<close>

theorem create_company_single_string:
  "flask (create_company ext0
            (request0\<lparr>json := [(''company_name'', PStr ''Acme''), (''company_address'', PStr ''1 Main St'')]\<rparr>)
            store0)
     = ((JsonError ''Validation Error''
           ''Invalid data: company_email: field required; company_phone: field required'', 400), store0)"
  by (simp add: create_company_def request0_def validate_company_two_missing invalid_data_def
        except_Exception_app is_OSConstructionError_simps flask_validation)

section \<open>The total of the company listing\<close>

text \<open>
  C3. The specification asks the reported total to be the size of the filtered set. On the
  sample store, where one of the two companies is verified, \<^verbatim>\<open>GET /api/companies?is_verified=true\<close>
  returns the one verified company and reports a total of 2: \<^verbatim>\<open>get_companies\<close> counts
  the whole table with \<^verbatim>\<open>get_total_count\<close>.
\<close>

theorem companies_total_ignores_filter:
  "route_get_companies ext0 (request0\<lparr>args := [(''is_verified'', ''true'')]\<rparr>) store0
     = ((JsonPage [company1] \<lparr> page = 1, per_page = 10, total = 2, pages = 1 \<rparr>, 200), store0)"
proof -
  have d: "int_max_str_digits ext0 = 4300" by (simp add: ext0_def)
  have p: "get_pagination_params 4300 [(''is_verified'', ''true'')] = Inr (1, 10)"
    by (simp add: get_pagination_params_def)
  have l: "py_lower ''true'' = ''true''"
    by (simp add: py_lower_def lower_char_def)
  have f: "eq_filter ''is_verified'' (PBool True) [company1, company2] = [company1]"
    by (simp add: eq_filter_def company1_def company2_def)
  have t: "table store0 ''os_construction'' = [company1, company2]"
    by (simp add: table_def store0_def)
  have q: "paginate_query [company1] 1 10 = [company1]"
    by (simp add: paginate_query_def range_rows_def)
  show ?thesis
    by (simp add: route_get_companies_def get_companies_def request0_def d p l f t q get_total_count_def
          format_paginated_response_def except_Exception_app flask_response)
qed

text \<open>
  The total that \<^verbatim>\<open>get_companies\<close> reports is the size of the table whatever the
  filters are, while the project listing reports the size of its filtered query.
\<close>

lemma get_companies_reports_table_size:
  assumes "fst (get_companies x req st) = Inr (b, c)"
  shows "map_option total (page_info b) = Some (int (length (companies st)))"
  using assms
  by (auto simp add: get_companies_def except_Exception_def Let_def get_total_count_def table_def
        format_paginated_response_def is_OSConstructionError_def
      split: sum.splits prod.splits if_splits exn.splits)

lemma get_company_projects_counts_filtered:
  assumes "fst (get_company_projects x cid req st) = Inr (b, c)"
    and "map_of (args req) ''status'' = Some s" and "s \<noteq> []"
  shows "map_option total (page_info b)
           = Some (int (length (eq_filter ''status'' (PStr s) (eq_filter ''company_id'' (PStr cid) (projects st)))))"
  using assms
  by (auto simp add: get_company_projects_def except_Exception_def Let_def table_def
        format_paginated_response_def is_OSConstructionError_def
      split: sum.splits prod.splits if_splits exn.splits)

section \<open>Authentication and authorization on the admin route\<close>

text \<open>
  The responses of the admin-only route \<^verbatim>\<open>DELETE /api/companies/<id>\<close>: a request without an
  \<^verbatim>\<open>Authorization\<close> header, or with one that does not start with \<^verbatim>\<open>Bearer \<close>, is
  answered with status 401 (token missing); a request whose token has expired is answered
  with status 401 and the message \<^verbatim>\<open>Token expired. Please log in again.\<close>; a request
  with a token that decodes, whose subject is not in the admin allow-list, is answered with
  status 403 (authorization failed). The store is unchanged in all three cases. The two
  decorators return these responses themselves.
\<close>

theorem admin_route_401_403:
  "((authorization req = None \<or> (\<exists>h. authorization req = Some h \<and> \<not> startswith h ''Bearer ''))
      \<longrightarrow> route_delete_company x cid req st
            = ((JsonError ''Authentication required'' ''Token is missing'', 401), st))
   \<and> (authorization req = Some (''Bearer '' @ tok) \<and> tok \<noteq> [] \<and> CHR '' '' \<notin> set tok
        \<and> jwt_decode x tok = ExpiredSignatureError
      \<longrightarrow> route_delete_company x cid req st
            = ((JsonError ''Authentication failed'' ''Token expired. Please log in again.'', 401), st))
   \<and> (authorization req = Some (''Bearer '' @ tok) \<and> tok \<noteq> [] \<and> CHR '' '' \<notin> set tok
        \<and> jwt_decode x tok = Decoded payload
        \<and> map_of payload ''sub'' = Some u \<and> map_of payload ''username'' = Some n
        \<and> u \<notin> PStr ` set (admin_user_ids x)
      \<longrightarrow> route_delete_company x cid req st
            = ((JsonError ''Authorization failed'' ''Admin privileges required'', 403), st))"
proof (intro conjI impI)
  assume "authorization req = None \<or> (\<exists>h. authorization req = Some h \<and> \<not> startswith h ''Bearer '')"
  then show "route_delete_company x cid req st
               = ((JsonError ''Authentication required'' ''Token is missing'', 401), st)"
    unfolding route_delete_company_def by (simp only: token_required_missing flask_response)
next
  assume "authorization req = Some (''Bearer '' @ tok) \<and> tok \<noteq> [] \<and> CHR '' '' \<notin> set tok
            \<and> jwt_decode x tok = ExpiredSignatureError"
  then have "token_required x (admin_required x (delete_company x cid)) req st
               = (Inr (JsonError ''Authentication failed'' ''Token expired. Please log in again.'', 401), st)"
    by (elim conjE) (rule token_required_expired, assumption+)
  then show "route_delete_company x cid req st
               = ((JsonError ''Authentication failed'' ''Token expired. Please log in again.'', 401), st)"
    unfolding route_delete_company_def by (simp only: flask_response)
next
  assume a: "authorization req = Some (''Bearer '' @ tok) \<and> tok \<noteq> [] \<and> CHR '' '' \<notin> set tok
        \<and> jwt_decode x tok = Decoded payload
        \<and> map_of payload ''sub'' = Some u \<and> map_of payload ''username'' = Some n
        \<and> u \<notin> PStr ` set (admin_user_ids x)"
  then have "token_required x (admin_required x (delete_company x cid)) req st
               = admin_required x (delete_company x cid) (req\<lparr>user_id := Some u, username := Some n\<rparr>) st"
    by (elim conjE) (rule token_required_admits, assumption+)
  also have "\<dots> = (Inr (JsonError ''Authorization failed'' ''Admin privileges required'', 403), st)"
    using a by (simp add: admin_required_def)
  finally show "route_delete_company x cid req st
               = ((JsonError ''Authorization failed'' ''Admin privileges required'', 403), st)"
    unfolding route_delete_company_def by (simp only: flask_response)
qed

text \<open>
  The three requests on the sample world.
\<close>

theorem admin_route_401_403_witness:
  "route_delete_company ext0 ''c1'' request0 store0
     = ((JsonError ''Authentication required'' ''Token is missing'', 401), store0)
   \<and> route_delete_company ext0 ''c1'' (request0\<lparr>authorization := Some ''Bearer old''\<rparr>) store0
     = ((JsonError ''Authentication failed'' ''Token expired. Please log in again.'', 401), store0)
   \<and> route_delete_company ext0 ''c1'' (request0\<lparr>authorization := Some ''Bearer t2''\<rparr>) store0
     = ((JsonError ''Authorization failed'' ''Admin privileges required'', 403), store0)"
proof -
  have 1: "authorization request0 = None" by (simp add: request0_def)
  have 2: "authorization (request0\<lparr>authorization := Some ''Bearer old''\<rparr>) = Some (''Bearer '' @ ''old'')
           \<and> ''old'' \<noteq> [] \<and> CHR '' '' \<notin> set ''old'' \<and> jwt_decode ext0 ''old'' = ExpiredSignatureError"
    by (simp add: ext0_def)
  have 3: "authorization (request0\<lparr>authorization := Some ''Bearer t2''\<rparr>) = Some (''Bearer '' @ ''t2'')
           \<and> ''t2'' \<noteq> [] \<and> CHR '' '' \<notin> set ''t2''
           \<and> jwt_decode ext0 ''t2'' = Decoded [(''sub'', PStr ''u2''), (''username'', PStr ''bob'')]
           \<and> map_of [(''sub'', PStr ''u2''), (''username'', PStr ''bob'')] ''sub'' = Some (PStr ''u2'')
           \<and> map_of [(''sub'', PStr ''u2''), (''username'', PStr ''bob'')] ''username'' = Some (PStr ''bob'')
           \<and> PStr ''u2'' \<notin> PStr ` set (admin_user_ids ext0)"
    by (simp add: admin_user_ids_ext0) (simp add: ext0_def)
  show ?thesis
    using admin_route_401_403 [where req = request0 and x = ext0 and cid = "''c1''" and st = store0,
                               THEN conjunct1] 1
          admin_route_401_403 [where req = "request0\<lparr>authorization := Some ''Bearer old''\<rparr>"
                                 and tok = "''old''" and x = ext0 and cid = "''c1''" and st = store0,
                               THEN conjunct2, THEN conjunct1] 2
          admin_route_401_403 [where req = "request0\<lparr>authorization := Some ''Bearer t2''\<rparr>"
                                 and tok = "''t2''" and x = ext0
                                 and payload = "[(''sub'', PStr ''u2''), (''username'', PStr ''bob'')]"
                                 and u = "PStr ''u2''" and n = "PStr ''bob''"
                                 and cid = "''c1''" and st = store0,
                               THEN conjunct2, THEN conjunct2] 3
    by blast
qed

text \<open>
  C4. The three statuses are as the specification has them: 401 without a bearer token,
  401 with the expired-token message, 403 for a token whose subject is not an
  administrator. What does not hold is that the last request yields
  \<^verbatim>\<open>AuthorizationError\<close>. The docstring of \<^verbatim>\<open>admin_required\<close> says that it raises
  \<^verbatim>\<open>AuthorizationError\<close>, but the decorator returns a response of its own: on the sample
  world the request with the token of the non-administrator \<^verbatim>\<open>u2\<close> comes back as a
  returned value with the body \<^verbatim>\<open>Authorization failed\<close>, while a raised
  \<^verbatim>\<open>AuthorizationError\<close> would have gone through the error handler and carried the body
  \<^verbatim>\<open>Authorization Error\<close>.
\<close>

theorem admin_forbidden_returned_not_raised:
  "token_required ext0 (admin_required ext0 (delete_company ext0 ''c1''))
       (request0\<lparr>authorization := Some ''Bearer t2''\<rparr>) store0
     = (Inr (JsonError ''Authorization failed'' ''Admin privileges required'', 403), store0)
   \<and> route_delete_company ext0 ''c1'' (request0\<lparr>authorization := Some ''Bearer t2''\<rparr>) store0
     = ((JsonError ''Authorization failed'' ''Admin privileges required'', 403), store0)
   \<and> flask (Inl (AuthorizationError ''Admin privileges required''), store0)
     = ((JsonError ''Authorization Error'' ''Admin privileges required'', 403), store0)"
proof -
  have a: "authorization (request0\<lparr>authorization := Some ''Bearer t2''\<rparr>) = Some (''Bearer '' @ ''t2'')"
    by simp
  have d: "jwt_decode ext0 ''t2'' = Decoded [(''sub'', PStr ''u2''), (''username'', PStr ''bob'')]"
    by (simp add: ext0_def)
  have "token_required ext0 (admin_required ext0 (delete_company ext0 ''c1''))
          (request0\<lparr>authorization := Some ''Bearer t2''\<rparr>) store0
        = admin_required ext0 (delete_company ext0 ''c1'')
            (request0\<lparr>authorization := Some ''Bearer t2'',
                       user_id := Some (PStr ''u2''), username := Some (PStr ''bob'')\<rparr>) store0"
    using token_required_admits [OF a _ _ d, where u = "PStr ''u2''" and n = "PStr ''bob''"] by simp
  also have "\<dots> = (Inr (JsonError ''Authorization failed'' ''Admin privileges required'', 403), store0)"
    by (simp add: admin_required_def admin_user_ids_ext0)
  finally have g: "token_required ext0 (admin_required ext0 (delete_company ext0 ''c1''))
       (request0\<lparr>authorization := Some ''Bearer t2''\<rparr>) store0
     = (Inr (JsonError ''Authorization failed'' ''Admin privileges required'', 403), store0)" .
  have r: "route_delete_company ext0 ''c1'' (request0\<lparr>authorization := Some ''Bearer t2''\<rparr>) store0
     = ((JsonError ''Authorization failed'' ''Admin privileges required'', 403), store0)"
    unfolding route_delete_company_def g by (rule flask_response)
  have h: "flask (Inl (AuthorizationError ''Admin privileges required''), store0)
     = ((JsonError ''Authorization Error'' ''Admin privileges required'', 403), store0)"
    by (simp add: flask_def is_OSConstructionError_def handle_custom_exception_def)
  show ?thesis using g r h by blast
qed

section \<open>Partial update of a company\<close>

text \<open>
  C5. When the payload of \<^verbatim>\<open>update_company\<close> holds exactly one field \<open>f\<close>, then whatever
  the outcome, every stored company keeps the value of every field other than \<open>f\<close> and
  \<^verbatim>\<open>updated_at\<close> (a field that is absent stays absent: nothing is filled in with a
  default), every company with another id is untouched, and the other three tables are
  untouched. When the update succeeds and \<open>f\<close> is a field of the schema whose validated
  value is not \<^verbatim>\<open>None\<close>, the company with the given id holds that value in \<open>f\<close> and the
  time of the update in \<^verbatim>\<open>updated_at\<close>.
\<close>

theorem update_one_field_frame:
  assumes "json req = [(f, v)]" and "update_company x cid req st = (r, st')"
  shows "services st' = services st \<and> projects st' = projects st \<and> employees st' = employees st
       \<and> list_all2 (\<lambda>row row'. (\<forall>k. k \<noteq> f \<and> k \<noteq> ''updated_at'' \<longrightarrow> map_of row' k = map_of row k)
                              \<and> (map_of row ''id'' \<noteq> Some (PStr cid) \<longrightarrow> row' = row))
           (companies st) (companies st')
       \<and> (\<forall>resp fld w. r = Inr resp \<and> fld \<in> set CompanyUpdate_fields \<and> fname fld = f
              \<and> validate_field x (company_validators x) [] fld v = Inr w \<and> w \<noteq> PNone
            \<longrightarrow> list_all2 (\<lambda>row row'. map_of row ''id'' = Some (PStr cid)
                              \<longrightarrow> map_of row' f = Some w
                                  \<and> map_of row' ''updated_at'' = Some (PStr (utcnow x)))
                  (companies st) (companies st'))"
proof -
  from update_company_outcome [OF assms(2)]
  consider (failed) "st' = st" "\<exists>e. r = Inl e"
    | (written) company_data where
        "validate_model x (company_validators x) CompanyUpdate_fields (json req) = Inr company_data"
        "st' = st\<lparr>companies :=
                 map (\<lambda>row. if map_of row ''id'' = Some (PStr cid)
                             then AList.merge row
                                    (AList.update ''updated_at'' (PStr (utcnow x))
                                       (filter (\<lambda>kv. snd kv \<noteq> PNone) company_data))
                             else row) (companies st)\<rparr>"
    by blast
  then show ?thesis
  proof cases
    case failed
    then show ?thesis by (auto simp add: list_all2_same)
  next
    case written
    define db where "db = AList.update ''updated_at'' (PStr (utcnow x))
                            (filter (\<lambda>kv. snd kv \<noteq> PNone) company_data)"
    have st': "st' = st\<lparr>companies := map (\<lambda>row. if map_of row ''id'' = Some (PStr cid)
                                                then AList.merge row db else row) (companies st)\<rparr>"
      using written(2) by (simp only: db_def)
    have frame: "map_of db k = None" if kf: "k \<noteq> f" and ku: "k \<noteq> ''updated_at''" for k
    proof (cases "map_of db k")
      case None
      then show ?thesis .
    next
      case (Some w)
      then obtain v0 where "map_of (json req) k = Some v0"
        using db_data_facts(3) [OF written(1) ku, of "utcnow x" w] by (auto simp add: db_def)
      then show ?thesis using assms(1) kf by (simp split: if_splits)
    qed
    have stamp: "map_of db ''updated_at'' = Some (PStr (utcnow x))"
      using db_data_facts(1) [OF written(1)] by (simp add: db_def)
    have fval: "map_of db f = Some w"
      if "fld \<in> set CompanyUpdate_fields" and "fname fld = f"
        and "validate_field x (company_validators x) [] fld v = Inr w" and "w \<noteq> PNone" for fld w
    proof -
      have "map_of (json req) (fname fld) = Some v" using assms(1) that(2) by simp
      then have "map_of company_data (fname fld) = Some w"
        using validate_fields_value [where vs = "company_validators x" and vals = "[]" and fld = fld,
                OF company_validators_indep CompanyUpdate_names(1) that(1) _ that(3) _
                   validate_model_Inr [OF written(1)]]
        by simp
      then have "map_of (filter (\<lambda>kv. snd kv \<noteq> PNone) company_data) f = Some w"
        using that(2,4) by (simp add: map_of_filter_keeps)
      moreover have "fname fld \<in> fname ` set CompanyUpdate_fields" using that(1) by (rule imageI)
      then have "f \<noteq> ''updated_at''" using that(2) CompanyUpdate_names(2) by metis
      ultimately show ?thesis by (simp add: db_def AList.update_conv')
    qed
    have p1: "services st' = services st \<and> projects st' = projects st \<and> employees st' = employees st"
      by (simp add: st')
    have p2: "list_all2 (\<lambda>row row'. (\<forall>k. k \<noteq> f \<and> k \<noteq> ''updated_at'' \<longrightarrow> map_of row' k = map_of row k)
                              \<and> (map_of row ''id'' \<noteq> Some (PStr cid) \<longrightarrow> row' = row))
           (companies st) (companies st')"
      unfolding st' by (simp add: list_all2_map_same map_of_merge frame)
    have p3: "list_all2 (\<lambda>row row'. map_of row ''id'' = Some (PStr cid)
                              \<longrightarrow> map_of row' f = Some w
                                  \<and> map_of row' ''updated_at'' = Some (PStr (utcnow x)))
                  (companies st) (companies st')"
      if h: "r = Inr resp \<and> fld \<in> set CompanyUpdate_fields \<and> fname fld = f
              \<and> validate_field x (company_validators x) [] fld v = Inr w \<and> w \<noteq> PNone" for resp fld w
    proof -
      have "map_of db f = Some w" using h fval [of fld w] by blast
      then show ?thesis unfolding st' by (simp add: list_all2_map_same map_of_merge stamp)
    qed
    show ?thesis using p1 p2 p3 by blast
  qed
qed

text \<open>
  Witness for C5: setting the website of company \<^verbatim>\<open>c1\<close> on the sample store.
\<close>

theorem update_one_field_frame_witness:
  "update_company ext0 ''c1'' (request0\<lparr>json := [(''website'', PStr ''b.org'')]\<rparr>) store0
     = (Inr (JsonRow [(''id'', PStr ''c1''), (''company_name'', PStr ''Acme''), (''website'', PStr ''b.org''),
                      (''is_verified'', PBool True), (''updated_at'', PStr ''2024-05-01'')], 200),
        store0\<lparr>companies :=
          [[(''id'', PStr ''c1''), (''company_name'', PStr ''Acme''), (''website'', PStr ''b.org''),
            (''is_verified'', PBool True), (''updated_at'', PStr ''2024-05-01'')],
           company2]\<rparr>)
   \<and> list_all2 (\<lambda>row row'. (\<forall>k. k \<noteq> ''website'' \<and> k \<noteq> ''updated_at'' \<longrightarrow> map_of row' k = map_of row k)
                          \<and> (map_of row ''id'' \<noteq> Some (PStr ''c1'') \<longrightarrow> row' = row))
       (companies store0)
       (companies (store0\<lparr>companies :=
          [[(''id'', PStr ''c1''), (''company_name'', PStr ''Acme''), (''website'', PStr ''b.org''),
            (''is_verified'', PBool True), (''updated_at'', PStr ''2024-05-01'')],
           company2]\<rparr>))"
proof -
  have j: "json (request0\<lparr>json := [(''website'', PStr ''b.org'')]\<rparr>) = [(''website'', PStr ''b.org'')]"
    by simp
  show ?thesis
    by (rule conjI [OF update_website_store0
          update_one_field_frame [OF j update_website_store0,
            THEN conjunct2, THEN conjunct2, THEN conjunct2, THEN conjunct1]])
qed

text \<open>
  C10. Whatever the outcome of \<^verbatim>\<open>update_company\<close>: no field of a stored company becomes
  null unless it was null before; a field that is absent from the payload or sent as null
  keeps its stored value (\<^verbatim>\<open>updated_at\<close> apart); and when the update succeeds the company
  with the given id gets the time of the update in \<^verbatim>\<open>updated_at\<close>. A non-empty payload in
  which every entry is null or is not a field of the schema does succeed on an existing
  company, and then \<^verbatim>\<open>updated_at\<close> is the only field written. (An empty payload is
  refused with \<^verbatim>\<open>No data provided\<close> before anything is validated or written.)
\<close>

theorem update_never_clears:
  assumes "update_company x cid req st = (r, st')"
  shows "list_all2 (\<lambda>row row'.
            (\<forall>k. map_of row' k = Some PNone \<longrightarrow> map_of row k = Some PNone)
          \<and> (\<forall>k. k \<noteq> ''updated_at'' \<and> (map_of (json req) k = None \<or> map_of (json req) k = Some PNone)
                 \<longrightarrow> map_of row' k = map_of row k)
          \<and> ((\<exists>resp. r = Inr resp) \<and> map_of row ''id'' = Some (PStr cid)
                 \<longrightarrow> map_of row' ''updated_at'' = Some (PStr (utcnow x))))
          (companies st) (companies st')
       \<and> (json req \<noteq> []
            \<and> (\<forall>kv \<in> set (json req). snd kv = PNone \<or> fst kv \<notin> fname ` set CompanyUpdate_fields)
            \<and> eq_filter ''id'' (PStr cid) (companies st) \<noteq> []
          \<longrightarrow> (\<exists>resp. r = Inr resp)
              \<and> companies st' = map (\<lambda>row. if map_of row ''id'' = Some (PStr cid)
                                            then AList.update ''updated_at'' (PStr (utcnow x)) row
                                            else row) (companies st))"
proof (intro conjI impI)
  from update_company_outcome [OF assms]
  consider (failed) "st' = st" "\<exists>e. r = Inl e"
    | (written) company_data where
        "validate_model x (company_validators x) CompanyUpdate_fields (json req) = Inr company_data"
        "st' = st\<lparr>companies :=
                 map (\<lambda>row. if map_of row ''id'' = Some (PStr cid)
                             then AList.merge row
                                    (AList.update ''updated_at'' (PStr (utcnow x))
                                       (filter (\<lambda>kv. snd kv \<noteq> PNone) company_data))
                             else row) (companies st)\<rparr>"
    by blast
  then show "list_all2 (\<lambda>row row'.
            (\<forall>k. map_of row' k = Some PNone \<longrightarrow> map_of row k = Some PNone)
          \<and> (\<forall>k. k \<noteq> ''updated_at'' \<and> (map_of (json req) k = None \<or> map_of (json req) k = Some PNone)
                 \<longrightarrow> map_of row' k = map_of row k)
          \<and> ((\<exists>resp. r = Inr resp) \<and> map_of row ''id'' = Some (PStr cid)
                 \<longrightarrow> map_of row' ''updated_at'' = Some (PStr (utcnow x))))
          (companies st) (companies st')"
  proof cases
    case failed
    then show ?thesis by (auto simp add: list_all2_same)
  next
    case written
    define db where "db = AList.update ''updated_at'' (PStr (utcnow x))
                            (filter (\<lambda>kv. snd kv \<noteq> PNone) company_data)"
    have st': "st' = st\<lparr>companies := map (\<lambda>row. if map_of row ''id'' = Some (PStr cid)
                                                then AList.merge row db else row) (companies st)\<rparr>"
      using written(2) by (simp only: db_def)
    have nonull: "map_of db k \<noteq> Some PNone" for k
      using db_data_facts(2) [OF written(1), of "utcnow x" k] by (simp add: db_def)
    have stamp: "map_of db ''updated_at'' = Some (PStr (utcnow x))"
      using db_data_facts(1) [OF written(1)] by (simp add: db_def)
    have untouched: "map_of db k = None"
      if ku: "k \<noteq> ''updated_at''" and kn: "map_of (json req) k = None \<or> map_of (json req) k = Some PNone" for k
    proof (cases "map_of db k")
      case None
      then show ?thesis .
    next
      case (Some w)
      then obtain v0 where "map_of (json req) k = Some v0" and "v0 \<noteq> PNone"
        using db_data_facts(3) [OF written(1) ku, of "utcnow x" w] by (auto simp add: db_def)
      then show ?thesis using kn by auto
    qed
    have a: "map_of (AList.merge row db) k = Some PNone \<Longrightarrow> map_of row k = Some PNone" for row k
      using nonull [of k] by (simp add: map_of_merge split: option.splits)
    have b: "k \<noteq> ''updated_at'' \<and> (map_of (json req) k = None \<or> map_of (json req) k = Some PNone)
               \<Longrightarrow> map_of (AList.merge row db) k = map_of row k" for row k
      using untouched [of k] by (simp add: map_of_merge)
    have c: "map_of (AList.merge row db) ''updated_at'' = Some (PStr (utcnow x))" for row
      by (simp add: map_of_merge stamp)
    let ?g = "\<lambda>row. if map_of row ''id'' = Some (PStr cid) then AList.merge row db else row"
    let ?P = "\<lambda>row row'.
            (\<forall>k. map_of row' k = Some PNone \<longrightarrow> map_of row k = Some PNone)
          \<and> (\<forall>k. k \<noteq> ''updated_at'' \<and> (map_of (json req) k = None \<or> map_of (json req) k = Some PNone)
                 \<longrightarrow> map_of row' k = map_of row k)
          \<and> ((\<exists>resp. r = Inr resp) \<and> map_of row ''id'' = Some (PStr cid)
                 \<longrightarrow> map_of row' ''updated_at'' = Some (PStr (utcnow x)))"
    have cs: "companies st' = map ?g (companies st)" by (simp add: st')
    have row_ok: "?P row (?g row)" for row
    proof (cases "map_of row ''id'' = Some (PStr cid)")
      case True
      then have g: "?g row = AList.merge row db" by simp
      show ?thesis
        unfolding g
      proof (intro conjI allI impI)
        fix k assume "map_of (AList.merge row db) k = Some PNone"
        then show "map_of row k = Some PNone" by (rule a)
      next
        fix k assume "k \<noteq> ''updated_at'' \<and> (map_of (json req) k = None \<or> map_of (json req) k = Some PNone)"
        then show "map_of (AList.merge row db) k = map_of row k" by (rule b)
      next
        show "map_of (AList.merge row db) ''updated_at'' = Some (PStr (utcnow x))" by (rule c)
      qed
    next
      case False
      then have g: "?g row = row" by simp
      show ?thesis unfolding g using False by simp
    qed
    have "list_all2 ?P (companies st) (map ?g (companies st))"
      unfolding list_all2_map_same using row_ok by blast
    then show ?thesis unfolding cs .
  qed
next
  assume h: "json req \<noteq> []
            \<and> (\<forall>kv \<in> set (json req). snd kv = PNone \<or> fst kv \<notin> fname ` set CompanyUpdate_fields)
            \<and> eq_filter ''id'' (PStr cid) (companies st) \<noteq> []"
  have v: "validate_model x (company_validators x) CompanyUpdate_fields (json req)
           = Inr (map (\<lambda>fld. (fname fld, PNone)) CompanyUpdate_fields)"
    using h by (intro validate_update_nothing_usable) blast
  obtain row where u: "update_company x cid req st =
           (Inr (JsonRow row, 200),
            st\<lparr>companies :=
                 map (\<lambda>row. if map_of row ''id'' = Some (PStr cid)
                             then AList.merge row
                                    (AList.update ''updated_at'' (PStr (utcnow x))
                                       (filter (\<lambda>kv. snd kv \<noteq> PNone)
                                          (map (\<lambda>fld. (fname fld, PNone)) CompanyUpdate_fields)))
                             else row) (companies st)\<rparr>)"
    using update_company_written [OF _ v, of cid st] h by blast
  have e: "filter (\<lambda>kv. snd kv \<noteq> PNone) (map (\<lambda>fld. (fname fld, PNone)) CompanyUpdate_fields) = []"
    by (simp add: filter_empty_conv)
  show "\<exists>resp. r = Inr resp" using u assms by auto
  show "companies st' = map (\<lambda>row. if map_of row ''id'' = Some (PStr cid)
                                            then AList.update ''updated_at'' (PStr (utcnow x)) row
                                            else row) (companies st)"
    using u assms by (simp add: e merge_single)
qed

text \<open>
  Witness for C10: a payload that only sends the website as null.
\<close>

theorem update_never_clears_witness:
  "update_company ext0 ''c1'' (request0\<lparr>json := [(''website'', PNone)]\<rparr>) store0
     = (Inr (JsonRow [(''id'', PStr ''c1''), (''company_name'', PStr ''Acme''), (''website'', PStr ''a.org''),
                      (''is_verified'', PBool True), (''updated_at'', PStr ''2024-05-01'')], 200),
        store0\<lparr>companies :=
          [[(''id'', PStr ''c1''), (''company_name'', PStr ''Acme''), (''website'', PStr ''a.org''),
            (''is_verified'', PBool True), (''updated_at'', PStr ''2024-05-01'')],
           company2]\<rparr>)
   \<and> companies (store0\<lparr>companies :=
          [[(''id'', PStr ''c1''), (''company_name'', PStr ''Acme''), (''website'', PStr ''a.org''),
            (''is_verified'', PBool True), (''updated_at'', PStr ''2024-05-01'')],
           company2]\<rparr>)
       = map (\<lambda>row. if map_of row ''id'' = Some (PStr ''c1'')
                     then AList.update ''updated_at'' (PStr (utcnow ext0)) row else row)
           (companies store0)"
proof -
  have h: "json (request0\<lparr>json := [(''website'', PNone)]\<rparr>) \<noteq> []
           \<and> (\<forall>kv \<in> set (json (request0\<lparr>json := [(''website'', PNone)]\<rparr>)).
                  snd kv = PNone \<or> fst kv \<notin> fname ` set CompanyUpdate_fields)
           \<and> eq_filter ''id'' (PStr ''c1'') (companies store0) \<noteq> []"
    by (simp add: eq_filter_c1_store0)
  show ?thesis
    by (rule conjI [OF update_null_website_store0
          update_never_clears [OF update_null_website_store0, THEN conjunct2, rule_format, OF h,
            THEN conjunct2]])
qed

section \<open>Pagination parameters\<close>

lemma py_int_unit_separator: "py_int 4300 [CHR 0x1F, CHR ''5''] = None"
  by (simp add: py_int_def py_strip_def is_space_def digit_val_def Let_def)

lemma pagination_zero_clamped:
  "get_pagination_params 4300 [(''page'', ''0''), (''per_page'', ''-5'')] = Inr (1, 1)"
  by (simp add: get_pagination_params_def py_int_0 py_int_m5)

text \<open>
  C7. A list request whose \<^verbatim>\<open>page\<close> or \<^verbatim>\<open>per_page\<close> parameter is not numeric (Python's
  \<^verbatim>\<open>int\<close> refuses it) makes the extraction fail with \<^verbatim>\<open>ValidationError\<close>; nothing is
  substituted for it. No parameter is non-positive after the clamp: whenever the
  extraction returns, the page is at least 1 and the page size is from 1 to 100, a numeric
  page \<open>p\<close> having become \<^verbatim>\<open>max(1, p)\<close> and a numeric page size \<open>q\<close>
  \<^verbatim>\<open>max(1, min(100, q))\<close>. So the failing requests are exactly those with a non-numeric
  parameter.
\<close>

theorem pagination_params_numeric:
  "(map_of qs ''page'' = Some s \<and> py_int maxd s = None
      \<longrightarrow> get_pagination_params maxd qs = Inl (ValidationError ''Invalid pagination parameters''))
   \<and> (map_of qs ''per_page'' = Some s \<and> py_int maxd s = None
      \<longrightarrow> get_pagination_params maxd qs = Inl (ValidationError ''Invalid pagination parameters''))
   \<and> (get_pagination_params maxd qs = Inr (pg, pp) \<longrightarrow> 1 \<le> pg \<and> 1 \<le> pp \<and> pp \<le> 100)
   \<and> (map_of qs ''page'' = Some s1 \<and> py_int maxd s1 = Some p
        \<and> map_of qs ''per_page'' = Some s2 \<and> py_int maxd s2 = Some q
      \<longrightarrow> get_pagination_params maxd qs = Inr (max 1 p, max 1 (min 100 q)))
   \<and> ((\<forall>t. map_of qs ''page'' = Some t \<longrightarrow> py_int maxd t \<noteq> None)
        \<and> (\<forall>t. map_of qs ''per_page'' = Some t \<longrightarrow> py_int maxd t \<noteq> None)
      \<longrightarrow> (\<exists>pg pp. get_pagination_params maxd qs = Inr (pg, pp)))"
  by (auto simp add: get_pagination_params_def split: option.splits)

text \<open>
  Witness for C7: a non-numeric page, a non-numeric page size, and a request with page 0
  and page size -5, which returns page 1 and page size 1.
\<close>

theorem pagination_params_numeric_witness:
  "get_pagination_params 4300 [(''page'', ''abc'')] = Inl (ValidationError ''Invalid pagination parameters'')
   \<and> get_pagination_params 4300 [(''per_page'', ''1.5'')] = Inl (ValidationError ''Invalid pagination parameters'')
   \<and> get_pagination_params 4300 [(''page'', ''0''), (''per_page'', ''-5'')] = Inr (max 1 0, max 1 (min 100 (- 5)))
   \<and> (1 :: int) \<le> 1 \<and> (1 :: int) \<le> 100"
  using pagination_params_numeric [where qs = "[(''page'', ''abc'')]" and s = "''abc''" and maxd = 4300,
                                   THEN conjunct1]
        pagination_params_numeric [where qs = "[(''per_page'', ''1.5'')]" and s = "''1.5''" and maxd = 4300,
                                   THEN conjunct2, THEN conjunct1]
        pagination_params_numeric [where qs = "[(''page'', ''0''), (''per_page'', ''-5'')]" and maxd = 4300
                                     and ?s1.0 = "''0''" and p = 0 and ?s2.0 = "''-5''" and q = "- 5",
                                   THEN conjunct2, THEN conjunct2, THEN conjunct2, THEN conjunct1]
        pagination_params_numeric [where qs = "[(''page'', ''0''), (''per_page'', ''-5'')]" and maxd = 4300
                                     and pg = 1 and pp = 1,
                                   THEN conjunct2, THEN conjunct2, THEN conjunct1]
        pagination_zero_clamped
  by (simp add: py_int_abc py_int_1p5 py_int_0 py_int_m5)

section \<open>Deleting a company twice\<close>

text \<open>
  C8. For a request admitted by the token and admin checks and a company that exists, the
  first \<^verbatim>\<open>DELETE\<close> answers 200 and removes the company, and the same request on the
  resulting store answers 404. On any store where the company is absent the answer is 404
  and the store is unchanged: the handler checks existence before it deletes.
\<close>

theorem delete_twice:
  assumes "authorization req = Some (''Bearer '' @ tok)" and "tok \<noteq> []" and "CHR '' '' \<notin> set tok"
    and "jwt_decode x tok = Decoded payload"
    and "map_of payload ''sub'' = Some (PStr s)" and "s \<in> set (admin_user_ids x)"
    and "map_of payload ''username'' = Some n"
    and "eq_filter ''id'' (PStr cid) (companies st) \<noteq> []"
  shows "route_delete_company x cid req st
           = ((JsonMessage (''Company with ID '' @ cid @ '' deleted successfully''), 200),
              snd (delete_company_rows cid st))
         \<and> route_delete_company x cid req (snd (delete_company_rows cid st))
           = ((JsonError ''Not Found'' (''Company with ID '' @ cid @ '' not found''), 404),
              snd (delete_company_rows cid st))
         \<and> (eq_filter ''id'' (PStr cid) (companies st2) = []
              \<longrightarrow> route_delete_company x cid req st2
                    = ((JsonError ''Not Found'' (''Company with ID '' @ cid @ '' not found''), 404), st2))"
proof -
  have gate: "token_required x (admin_required x (delete_company x cid)) req t
                = delete_company x cid (req\<lparr>user_id := Some (PStr s), username := Some n\<rparr>) t" for t
  proof -
    have "token_required x (admin_required x (delete_company x cid)) req t
            = admin_required x (delete_company x cid) (req\<lparr>user_id := Some (PStr s), username := Some n\<rparr>) t"
      using assms(1-5,7) by (rule token_required_admits)
    also have "\<dots> = delete_company x cid (req\<lparr>user_id := Some (PStr s), username := Some n\<rparr>) t"
      using assms(6) by (simp add: admin_required_def)
    finally show ?thesis .
  qed
  have absent: "eq_filter ''id'' (PStr cid) (companies t) = []
                 \<Longrightarrow> route_delete_company x cid req t
                       = ((JsonError ''Not Found'' (''Company with ID '' @ cid @ '' not found''), 404), t)" for t
    unfolding route_delete_company_def gate by (simp only: delete_company_absent flask_not_found)
  have first: "route_delete_company x cid req st
           = ((JsonMessage (''Company with ID '' @ cid @ '' deleted successfully''), 200),
              snd (delete_company_rows cid st))"
    unfolding route_delete_company_def gate
    by (simp only: delete_company_present [OF assms(8)] flask_response)
  show ?thesis using first absent [OF deleted_is_absent] absent by blast
qed

theorem delete_twice_witness:
  "route_delete_company ext0 ''c1'' (request0\<lparr>authorization := Some ''Bearer t1''\<rparr>) store0
     = ((JsonMessage ''Company with ID c1 deleted successfully'', 200),
        \<lparr> companies = [company2], services = [], projects = [], employees = [] \<rparr>)
   \<and> route_delete_company ext0 ''c1'' (request0\<lparr>authorization := Some ''Bearer t1''\<rparr>)
        \<lparr> companies = [company2], services = [], projects = [], employees = [] \<rparr>
     = ((JsonError ''Not Found'' ''Company with ID c1 not found'', 404),
        \<lparr> companies = [company2], services = [], projects = [], employees = [] \<rparr>)"
proof -
  have a: "authorization (request0\<lparr>authorization := Some ''Bearer t1''\<rparr>) = Some (''Bearer '' @ ''t1'')"
          "''t1'' \<noteq> []" "CHR '' '' \<notin> set ''t1''"
          "jwt_decode ext0 ''t1'' = Decoded [(''sub'', PStr ''u1''), (''username'', PStr ''ann'')]"
          "map_of [(''sub'', PStr ''u1''), (''username'', PStr ''ann'')] ''sub'' = Some (PStr ''u1'')"
          "''u1'' \<in> set (admin_user_ids ext0)"
          "map_of [(''sub'', PStr ''u1''), (''username'', PStr ''ann'')] ''username'' = Some (PStr ''ann'')"
          "eq_filter ''id'' (PStr ''c1'') (companies store0) \<noteq> []"
    by (simp_all add: admin_user_ids_ext0 eq_filter_c1_store0) (simp_all add: ext0_def)
  show ?thesis
    using delete_twice [OF a, of store0] by (simp add: delete_c1_store0)
qed
section \<open>The admin allow-list\<close>

text \<open>
  C9. \<^verbatim>\<open>admin_required\<close> runs the wrapped view exactly when \<^verbatim>\<open>request.user_id\<close> is one
  of the pieces of the \<^verbatim>\<open>ADMIN_USER_IDS\<close> environment string split at the commas, and
  answers 403 otherwise. When the variable is unset or empty the list is the one-element
  list holding the empty string, so a token that decodes with the empty string as its
  subject passes both decorators.
\<close>

theorem admin_check_allow_list:
  "admin_required x f req st =
     (if \<exists>s \<in> set (py_split CHR '','' (case map_of (environ x) ''ADMIN_USER_IDS'' of None \<Rightarrow> [] | Some s \<Rightarrow> s)).
           user_id req = Some (PStr s)
      then f req st
      else (Inr (JsonError ''Authorization failed'' ''Admin privileges required'', 403), st))
   \<and> (map_of (environ x) ''ADMIN_USER_IDS'' = None \<or> map_of (environ x) ''ADMIN_USER_IDS'' = Some []
        \<longrightarrow> admin_user_ids x = [[]]
            \<and> (authorization req = Some (''Bearer '' @ tok) \<and> tok \<noteq> [] \<and> CHR '' '' \<notin> set tok
                 \<and> jwt_decode x tok = Decoded payload
                 \<and> map_of payload ''sub'' = Some (PStr []) \<and> map_of payload ''username'' = Some n
               \<longrightarrow> token_required x (admin_required x f) req st
                     = f (req\<lparr>user_id := Some (PStr []), username := Some n\<rparr>) st))"
proof (intro conjI impI)
  show "admin_required x f req st =
     (if \<exists>s \<in> set (py_split CHR '','' (case map_of (environ x) ''ADMIN_USER_IDS'' of None \<Rightarrow> [] | Some s \<Rightarrow> s)).
           user_id req = Some (PStr s)
      then f req st
      else (Inr (JsonError ''Authorization failed'' ''Admin privileges required'', 403), st))"
    using admin_required_cases [of x f req st] by (simp only: admin_user_ids_def)
next
  assume "map_of (environ x) ''ADMIN_USER_IDS'' = None \<or> map_of (environ x) ''ADMIN_USER_IDS'' = Some []"
  then show "admin_user_ids x = [[]]" by (auto simp add: admin_user_ids_def)
next
  assume e: "map_of (environ x) ''ADMIN_USER_IDS'' = None \<or> map_of (environ x) ''ADMIN_USER_IDS'' = Some []"
  assume a: "authorization req = Some (''Bearer '' @ tok) \<and> tok \<noteq> [] \<and> CHR '' '' \<notin> set tok
                 \<and> jwt_decode x tok = Decoded payload
                 \<and> map_of payload ''sub'' = Some (PStr []) \<and> map_of payload ''username'' = Some n"
  have ids: "admin_user_ids x = [[]]" using e by (auto simp add: admin_user_ids_def)
  have "token_required x (admin_required x f) req st
          = admin_required x f (req\<lparr>user_id := Some (PStr []), username := Some n\<rparr>) st"
    using a by (elim conjE) (rule token_required_admits, assumption+)
  also have "\<dots> = f (req\<lparr>user_id := Some (PStr []), username := Some n\<rparr>) st"
    by (simp add: admin_required_def ids)
  finally show "token_required x (admin_required x f) req st
                     = f (req\<lparr>user_id := Some (PStr []), username := Some n\<rparr>) st" .
qed

text \<open>
  Witness for C9: with \<^verbatim>\<open>ADMIN_USER_IDS\<close> unset, the token whose subject is empty deletes
  a company.
\<close>

theorem admin_check_allow_list_witness:
  "map_of (environ ext1) ''ADMIN_USER_IDS'' = None
   \<and> admin_user_ids ext1 = [[]]
   \<and> token_required ext1 (admin_required ext1 (delete_company ext1 ''c1''))
        (request0\<lparr>authorization := Some ''Bearer t3''\<rparr>) store0
     = (Inr (JsonMessage ''Company with ID c1 deleted successfully'', 200),
        \<lparr> companies = [company2], services = [], projects = [], employees = [] \<rparr>)"
proof -
  have e: "map_of (environ ext1) ''ADMIN_USER_IDS'' = None" by (simp add: ext1_def)
  have a: "authorization (request0\<lparr>authorization := Some ''Bearer t3''\<rparr>) = Some (''Bearer '' @ ''t3'')
           \<and> ''t3'' \<noteq> [] \<and> CHR '' '' \<notin> set ''t3''
           \<and> jwt_decode ext1 ''t3'' = Decoded [(''sub'', PStr []), (''username'', PStr ''eve'')]
           \<and> map_of [(''sub'', PStr []), (''username'', PStr ''eve'')] ''sub'' = Some (PStr [])
           \<and> map_of [(''sub'', PStr []), (''username'', PStr ''eve'')] ''username'' = Some (PStr ''eve'')"
    by (simp add: ext1_def ext0_def)
  have d: "delete_company ext1 ''c1''
             (request0\<lparr>authorization := Some ''Bearer t3'', user_id := Some (PStr []), username := Some (PStr ''eve'')\<rparr>) store0
           = (Inr (JsonMessage ''Company with ID c1 deleted successfully'', 200),
              \<lparr> companies = [company2], services = [], projects = [], employees = [] \<rparr>)"
    using delete_company_present [of "''c1''" store0 ext1] by (simp add: eq_filter_c1_store0 delete_c1_store0)
  show ?thesis
    using admin_check_allow_list [where x = ext1 and req = "request0\<lparr>authorization := Some ''Bearer t3''\<rparr>"
                                     and tok = "''t3''" and f = "delete_company ext1 ''c1''"
                                     and payload = "[(''sub'', PStr []), (''username'', PStr ''eve'')]"
                                     and n = "PStr ''eve''" and st = store0, THEN conjunct2]
          e a d
    by simp
qed

section \<open>Pagination envelope\<close>

lemma div_add_mult_int:
  fixes a c p :: int
  assumes "0 < p"
  shows "(a + c * p) div p = a div p + c"
  using assms by simp

lemma neg_div_eq_ceil_div:
  fixes t p :: int
  assumes "0 < p"
  shows "- ((- t) div p) = (t + p - 1) div p"
proof -
  define q where "q = t div p"
  define r where "r = t mod p"
  have qr: "t = q * p + r" "0 \<le> r" "r < p"
    using assms by (simp_all add: q_def r_def)
  show ?thesis
  proof (cases "r = 0")
    case True
    have a: "- t = 0 + (- q) * p" using qr True by simp
    have "(- t) div p = - q"
      unfolding a by (simp only: div_add_mult_int [OF assms]) simp
    moreover have b: "t + p - 1 = (p - 1) + q * p" using qr True by simp
    have "(t + p - 1) div p = q"
      unfolding b using assms by (simp only: div_add_mult_int [OF assms]) (simp add: div_pos_pos_trivial)
    ultimately show ?thesis by simp
  next
    case False
    have a: "- t = (p - r) + (- q - 1) * p" using qr by (simp add: algebra_simps)
    have "(- t) div p = - q - 1"
      unfolding a using qr False assms
      by (simp only: div_add_mult_int [OF assms]) (simp add: div_pos_pos_trivial)
    moreover have b: "t + p - 1 = (r - 1) + (q + 1) * p" using qr by (simp add: algebra_simps)
    have "(t + p - 1) div p = q + 1"
      unfolding b using qr False assms
      by (simp only: div_add_mult_int [OF assms]) (simp add: div_pos_pos_trivial)
    ultimately show ?thesis by simp
  qed
qed

lemma ceiling_div_int:
  fixes t p :: int
  assumes "0 < p"
  shows "\<lceil>real_of_int t / real_of_int p\<rceil> = (t + p - 1) div p"
proof -
  have "- (real_of_int t / real_of_int p) = real_of_int (- t) / real_of_int p" by simp
  then have "\<lfloor>- (real_of_int t / real_of_int p)\<rfloor> = (- t) div p"
    by (simp only: floor_divide_of_int_eq)
  then have "\<lceil>real_of_int t / real_of_int p\<rceil> = - ((- t) div p)" by (simp add: ceiling_def)
  then show ?thesis using neg_div_eq_ceil_div [OF assms] by simp
qed

text \<open>
  C6. For every total \<open>\<ge> 0\<close> and every \<open>per_page\<close> from 1 to 100, the \<open>pages\<close> entry of
  the envelope built by \<^verbatim>\<open>format_paginated_response\<close> is the ceiling of
  \<open>total / per_page\<close>, and it is 0 when the total is 0. The witness evaluates the
  envelope at total 25, \<open>per_page\<close> 10 (3 pages) and at total 0.
\<close>

theorem pages_is_ceiling:
  assumes "0 \<le> tot" and "1 \<le> pp" and "pp \<le> 100"
  shows "map_option pages (page_info (format_paginated_response data pg pp tot))
           = Some \<lceil>real_of_int tot / real_of_int pp\<rceil>
         \<and> (tot = 0 \<longrightarrow>
              map_option pages (page_info (format_paginated_response data pg pp tot)) = Some 0)"
proof -
  have p: "0 < pp" using assms by simp
  show ?thesis
  proof (cases "tot = 0")
    case True
    then show ?thesis by (simp add: format_paginated_response_def)
  next
    case False
    then have "0 < tot" using assms by simp
    then show ?thesis using ceiling_div_int [OF p, of tot] by (simp add: format_paginated_response_def)
  qed
qed

theorem pages_is_ceiling_witness:
  "map_option pages (page_info (format_paginated_response [] 1 10 25)) = Some 3
   \<and> map_option pages (page_info (format_paginated_response [] 1 10 0)) = Some 0"
proof -
  have a: "\<lceil>real_of_int 25 / real_of_int 10\<rceil> = (3 :: int)" by (simp add: ceiling_eq_iff)
  show ?thesis
    using pages_is_ceiling [of 25 10 "[]" 1] pages_is_ceiling [of 0 10 "[]" 1] a by simp
qed

end
